theory Spec2Isabelle
  imports Main "HOL-Library.Word"
begin

unbundle bit_operations_syntax

section \<open>Basic types (types.h, utils.h)\<close>

text \<open>
  \<^verbatim>\<open>byte\<close> is \<^verbatim>\<open>uint8_t\<close> and \<^verbatim>\<open>word\<close> is \<^verbatim>\<open>uint16_t\<close>.  \<^verbatim>\<open>fast_byte\<close> is
  \<^verbatim>\<open>uint_fast8_t\<close>, which is an unsigned char (8 bits) on the usual platforms.
  The union \<^verbatim>\<open>address\<close> is a 16-bit value whose low byte is \<^verbatim>\<open>record\<close> and whose
  high byte is \<^verbatim>\<open>page\<close>.  Expressions that C++ evaluates in \<^verbatim>\<open>int\<close> (every
  arithmetic expression on bytes and words, after integer promotion) are
  modelled on \<^typ>\<open>int\<close>; the values are far below the 32-bit range.  The
  conversion back to a byte, a word or an address truncates, which is
  \<^const>\<open>word_of_int\<close>.
\<close>

type_synonym byte = "8 word"
type_synonym word16 = "16 word"
type_synonym fast_byte = "8 word"
type_synonym address = "16 word"

text \<open>The constructor \<^verbatim>\<open>address(int val) : value(val)\<close>.\<close>

definition address_of :: "int \<Rightarrow> address" where
  "address_of val = word_of_int val"

text \<open>The members \<^verbatim>\<open>page\<close> and \<^verbatim>\<open>record\<close> of the union.\<close>

definition page :: "address \<Rightarrow> byte" where
  "page a = ucast (drop_bit 8 a)"

definition record_of :: "address \<Rightarrow> byte" where
  "record_of a = ucast a"

definition KB :: nat where
  "KB = 0x400"

definition MAKE_KB :: "nat \<Rightarrow> nat" where
  "MAKE_KB n = n * KB"

text \<open>\<^verbatim>\<open>#define MAKE_WORD(low, high) ((high << 8) | low)\<close>, on promoted operands.\<close>

definition MAKE_WORD :: "int \<Rightarrow> int \<Rightarrow> int" where
  "MAKE_WORD low high = (push_bit 8 high) OR low"

definition GET_HIGH_BYTE :: "int \<Rightarrow> int" where
  "GET_HIGH_BYTE val = (drop_bit 8 val) AND 0xFF"

definition GET_LOW_BYTE :: "int \<Rightarrow> int" where
  "GET_LOW_BYTE val = val AND 0xFF"

definition IS_NEGATIVE :: "int \<Rightarrow> int" where
  "IS_NEGATIVE val = val AND 0x80"

definition ADDRESS_STACK :: word16 where
  "ADDRESS_STACK = 0x0100"

definition ADDRESS_NMI_VECTOR :: word16 where
  "ADDRESS_NMI_VECTOR = 0xFFFA"

definition ADDRESS_RESET_VECTOR :: word16 where
  "ADDRESS_RESET_VECTOR = 0xFFFC"

definition ADDRESS_IRQ_VECTOR :: word16 where
  "ADDRESS_IRQ_VECTOR = 0xFFFE"

section \<open>Memory (memory.h, memory.cpp)\<close>

record Memory =
  m_Size :: nat
  m_Data :: "byte list"

text \<open>
  \<^verbatim>\<open>Memory::Memory(sizeBytes)\<close> resizes the vector, which value-initialises
  every byte to 0.
\<close>

definition Memory_Make :: "nat \<Rightarrow> Memory" where
  "Memory_Make sizeBytes = \<lparr>m_Size = sizeBytes, m_Data = replicate sizeBytes 0\<rparr>"

definition Memory_ReadByte :: "Memory \<Rightarrow> address \<Rightarrow> byte" where
  "Memory_ReadByte mem addr =
     (if unat addr < m_Size mem then m_Data mem ! unat addr else 0)"

text \<open>
  \<^verbatim>\<open>ReadByte(addr.value + 1)\<close>: the sum is an \<^verbatim>\<open>int\<close>, and the implicit
  \<^verbatim>\<open>address(int)\<close> conversion truncates it to 16 bits.  The result is
  returned as a \<^verbatim>\<open>word\<close>.
\<close>

definition Memory_ReadWord :: "Memory \<Rightarrow> address \<Rightarrow> word16" where
  "Memory_ReadWord mem addr =
     (let low = Memory_ReadByte mem addr;
          high = Memory_ReadByte mem (address_of (uint addr + 1))
      in word_of_int (MAKE_WORD (uint low) (uint high)))"

definition Memory_WriteByte :: "Memory \<Rightarrow> address \<Rightarrow> byte \<Rightarrow> Memory" where
  "Memory_WriteByte mem addr data =
     (if unat addr < m_Size mem
      then mem\<lparr>m_Data := (m_Data mem)[unat addr := data]\<rparr>
      else mem)"

text \<open>
  \<^verbatim>\<open>Memory::WriteWord\<close> computes the second index in \<^verbatim>\<open>size_t\<close>, so
  it does not wrap.
\<close>

definition Memory_WriteWord :: "Memory \<Rightarrow> address \<Rightarrow> word16 \<Rightarrow> Memory" where
  "Memory_WriteWord mem addr data =
     (let mem1 = (if unat addr < m_Size mem
                  then mem\<lparr>m_Data := (m_Data mem)[unat addr := word_of_int (GET_LOW_BYTE (uint data))]\<rparr>
                  else mem)
      in if unat addr + 1 < m_Size mem1
         then mem1\<lparr>m_Data := (m_Data mem1)[unat addr + 1 := word_of_int (GET_HIGH_BYTE (uint data))]\<rparr>
         else mem1)"

section \<open>Bus (bus.h, bus.cpp)\<close>

text \<open>
  The bus forwards to the attached memory; an unattached bus (a null
  pointer) reads 0 and drops writes.
\<close>

record Bus =
  m_Memory :: "Memory option"

definition Bus_ReadByte :: "Bus \<Rightarrow> address \<Rightarrow> byte" where
  "Bus_ReadByte bus addr =
     (case m_Memory bus of Some mem \<Rightarrow> Memory_ReadByte mem addr | None \<Rightarrow> 0)"

definition Bus_ReadWord :: "Bus \<Rightarrow> address \<Rightarrow> word16" where
  "Bus_ReadWord bus addr =
     (case m_Memory bus of Some mem \<Rightarrow> Memory_ReadWord mem addr | None \<Rightarrow> 0)"

definition Bus_WriteByte :: "Bus \<Rightarrow> address \<Rightarrow> byte \<Rightarrow> Bus" where
  "Bus_WriteByte bus addr data =
     (case m_Memory bus of
        Some mem \<Rightarrow> bus\<lparr>m_Memory := Some (Memory_WriteByte mem addr data)\<rparr>
      | None \<Rightarrow> bus)"

section \<open>Instructions and the opcode table (instructions.h, instructions.cpp)\<close>

text \<open>
  The scoped enumerations \<^verbatim>\<open>AddressMode\<close> and \<^verbatim>\<open>Instruction\<close> share the
  names ILL, INX and INY, so every enumerator carries the name of its
  enumeration, as in \<^verbatim>\<open>AddressMode::INX\<close> and \<^verbatim>\<open>Instruction::INX\<close>.
\<close>

datatype AddressMode =
  AddressMode_ILL
  | AddressMode_ABS
  | AddressMode_ABX
  | AddressMode_ABY
  | AddressMode_ACC
  | AddressMode_IMM
  | AddressMode_IMP
  | AddressMode_IND
  | AddressMode_INX
  | AddressMode_INY
  | AddressMode_REL
  | AddressMode_ZPG
  | AddressMode_ZPX
  | AddressMode_ZPY

datatype Instruction =
  Instruction_ILL
  | Instruction_ADC
  | Instruction_AND
  | Instruction_ASL
  | Instruction_BCC
  | Instruction_BCS
  | Instruction_BEQ
  | Instruction_BIT
  | Instruction_BMI
  | Instruction_BNE
  | Instruction_BPL
  | Instruction_BRK
  | Instruction_BVC
  | Instruction_BVS
  | Instruction_CLC
  | Instruction_CLD
  | Instruction_CLI
  | Instruction_CLV
  | Instruction_CMP
  | Instruction_CPX
  | Instruction_CPY
  | Instruction_DEC
  | Instruction_DEX
  | Instruction_DEY
  | Instruction_EOR
  | Instruction_INC
  | Instruction_INX
  | Instruction_INY
  | Instruction_JMP
  | Instruction_JSR
  | Instruction_LDA
  | Instruction_LDX
  | Instruction_LDY
  | Instruction_LSR
  | Instruction_NOP
  | Instruction_ORA
  | Instruction_PHA
  | Instruction_PHP
  | Instruction_PLA
  | Instruction_PLP
  | Instruction_ROL
  | Instruction_ROR
  | Instruction_RTI
  | Instruction_RTS
  | Instruction_SBC
  | Instruction_SEC
  | Instruction_SED
  | Instruction_SEI
  | Instruction_STA
  | Instruction_STX
  | Instruction_STY
  | Instruction_TAX
  | Instruction_TAY
  | Instruction_TSX
  | Instruction_TXA
  | Instruction_TXS
  | Instruction_TYA

datatype InstructionDetail = InstructionDetail
  (opCode: byte)
  (instruction: Instruction)
  (addressing: AddressMode)
  (bytesUsed: fast_byte)
  (minCycles: fast_byte)
  (variableCycles: bool)

text \<open>\<^verbatim>\<open>constexpr fast_byte MAX_INSTRUCTIONS = 255;\<close>\<close>

definition MAX_INSTRUCTIONS :: fast_byte where
  "MAX_INSTRUCTIONS = 255"

text \<open>
  The initialiser of \<^verbatim>\<open>std::array<InstructionDetail, MAX_INSTRUCTIONS>\<close>,
  row by row.
\<close>

definition InstructionDetails :: "InstructionDetail list" where
  "InstructionDetails = [
   InstructionDetail 0x00 Instruction_BRK AddressMode_IMP 1 7 False,
   InstructionDetail 0x01 Instruction_ORA AddressMode_INX 2 6 False,
   InstructionDetail 0x02 Instruction_ILL AddressMode_ILL 1 2 False,
   InstructionDetail 0x03 Instruction_ILL AddressMode_ILL 1 2 False,
   InstructionDetail 0x04 Instruction_ILL AddressMode_ILL 1 2 False,
   InstructionDetail 0x05 Instruction_ORA AddressMode_ZPG 2 3 False,
   InstructionDetail 0x06 Instruction_ASL AddressMode_ZPG 2 5 False,
   InstructionDetail 0x07 Instruction_ILL AddressMode_ILL 1 2 False,
   InstructionDetail 0x08 Instruction_PHP AddressMode_IMP 1 3 False,
   InstructionDetail 0x09 Instruction_ORA AddressMode_IMM 2 2 False,
   InstructionDetail 0x0A Instruction_ASL AddressMode_ACC 1 2 False,
   InstructionDetail 0x0B Instruction_ILL AddressMode_ILL 1 2 False,
   InstructionDetail 0x0C Instruction_ILL AddressMode_ILL 1 2 False,
   InstructionDetail 0x0D Instruction_ORA AddressMode_ABS 3 4 False,
   InstructionDetail 0x0E Instruction_ASL AddressMode_ABS 3 6 False,
   InstructionDetail 0x0F Instruction_ILL AddressMode_ILL 1 2 False,
   InstructionDetail 0x10 Instruction_BPL AddressMode_REL 2 2 True,
   InstructionDetail 0x11 Instruction_ORA AddressMode_INY 2 5 True,
   InstructionDetail 0x12 Instruction_ILL AddressMode_ILL 1 2 False,
   InstructionDetail 0x13 Instruction_ILL AddressMode_ILL 1 2 False,
   InstructionDetail 0x14 Instruction_ILL AddressMode_ILL 1 2 False,
   InstructionDetail 0x15 Instruction_ORA AddressMode_ZPX 2 4 False,
   InstructionDetail 0x16 Instruction_ASL AddressMode_ZPX 2 6 False,
   InstructionDetail 0x17 Instruction_ILL AddressMode_ILL 1 2 False,
   InstructionDetail 0x18 Instruction_CLC AddressMode_IMP 1 2 False,
   InstructionDetail 0x19 Instruction_ORA AddressMode_ABY 3 4 True,
   InstructionDetail 0x1A Instruction_ILL AddressMode_ILL 1 2 False,
   InstructionDetail 0x1B Instruction_ILL AddressMode_ILL 1 2 False,
   InstructionDetail 0x1C Instruction_ILL AddressMode_ILL 1 2 False,
   InstructionDetail 0x1D Instruction_ORA AddressMode_ABX 3 4 True,
   InstructionDetail 0x1E Instruction_ASL AddressMode_ABX 3 7 False,
   InstructionDetail 0x1F Instruction_ILL AddressMode_ILL 1 2 False,
   InstructionDetail 0x20 Instruction_JSR AddressMode_ABS 3 6 False,
   InstructionDetail 0x21 Instruction_AND AddressMode_INX 2 6 False,
   InstructionDetail 0x22 Instruction_ILL AddressMode_ILL 1 2 False,
   InstructionDetail 0x23 Instruction_ILL AddressMode_ILL 1 2 False,
   InstructionDetail 0x24 Instruction_BIT AddressMode_ZPG 2 3 False,
   InstructionDetail 0x25 Instruction_AND AddressMode_ZPG 2 3 False,
   InstructionDetail 0x26 Instruction_ROL AddressMode_ZPG 2 5 False,
   InstructionDetail 0x27 Instruction_ILL AddressMode_ILL 1 2 False,
   InstructionDetail 0x28 Instruction_PLP AddressMode_IMP 1 4 False,
   InstructionDetail 0x29 Instruction_AND AddressMode_IMM 2 2 False,
   InstructionDetail 0x2A Instruction_ROL AddressMode_ACC 1 2 False,
   InstructionDetail 0x2B Instruction_ILL AddressMode_ILL 1 2 False,
   InstructionDetail 0x2C Instruction_BIT AddressMode_ABS 3 4 False,
   InstructionDetail 0x2D Instruction_AND AddressMode_ABS 3 4 False,
   InstructionDetail 0x2E Instruction_ROL AddressMode_ABS 3 6 False,
   InstructionDetail 0x2F Instruction_ILL AddressMode_ILL 1 2 False,
   InstructionDetail 0x30 Instruction_BMI AddressMode_REL 2 2 True,
   InstructionDetail 0x31 Instruction_AND AddressMode_INY 2 5 True,
   InstructionDetail 0x32 Instruction_ILL AddressMode_ILL 1 2 False,
   InstructionDetail 0x33 Instruction_ILL AddressMode_ILL 1 2 False,
   InstructionDetail 0x34 Instruction_ILL AddressMode_ILL 1 2 False,
   InstructionDetail 0x35 Instruction_AND AddressMode_ZPX 2 4 False,
   InstructionDetail 0x36 Instruction_ROL AddressMode_ZPX 2 6 False,
   InstructionDetail 0x37 Instruction_ILL AddressMode_ILL 1 2 False,
   InstructionDetail 0x38 Instruction_SEC AddressMode_IMP 1 2 False,
   InstructionDetail 0x39 Instruction_AND AddressMode_ABY 3 4 True,
   InstructionDetail 0x3A Instruction_ILL AddressMode_ILL 1 2 False,
   InstructionDetail 0x3B Instruction_ILL AddressMode_ILL 1 2 False,
   InstructionDetail 0x3C Instruction_ILL AddressMode_ILL 1 2 False,
   InstructionDetail 0x3D Instruction_AND AddressMode_ABX 3 4 True,
   InstructionDetail 0x3E Instruction_ROL AddressMode_ABX 3 7 False,
   InstructionDetail 0x3F Instruction_ILL AddressMode_ILL 1 2 False,
   InstructionDetail 0x40 Instruction_RTI AddressMode_IMP 1 6 False,
   InstructionDetail 0x41 Instruction_EOR AddressMode_INX 2 6 False,
   InstructionDetail 0x42 Instruction_ILL AddressMode_ILL 1 2 False,
   InstructionDetail 0x43 Instruction_ILL AddressMode_ILL 1 2 False,
   InstructionDetail 0x44 Instruction_ILL AddressMode_ILL 1 2 False,
   InstructionDetail 0x45 Instruction_EOR AddressMode_ZPG 2 3 False,
   InstructionDetail 0x46 Instruction_LSR AddressMode_ZPG 2 5 False,
   InstructionDetail 0x47 Instruction_ILL AddressMode_ILL 1 2 False,
   InstructionDetail 0x48 Instruction_PHA AddressMode_IMP 1 3 False,
   InstructionDetail 0x49 Instruction_EOR AddressMode_IMM 2 2 False,
   InstructionDetail 0x4A Instruction_LSR AddressMode_ACC 1 2 False,
   InstructionDetail 0x4B Instruction_ILL AddressMode_ILL 1 2 False,
   InstructionDetail 0x4C Instruction_JMP AddressMode_ABS 3 3 False,
   InstructionDetail 0x4D Instruction_EOR AddressMode_ABS 3 4 False,
   InstructionDetail 0x4E Instruction_LSR AddressMode_ABS 3 6 False,
   InstructionDetail 0x4F Instruction_ILL AddressMode_ILL 1 2 False,
   InstructionDetail 0x50 Instruction_BVC AddressMode_REL 2 2 True,
   InstructionDetail 0x51 Instruction_EOR AddressMode_INY 2 5 True,
   InstructionDetail 0x52 Instruction_ILL AddressMode_ILL 1 2 False,
   InstructionDetail 0x53 Instruction_ILL AddressMode_ILL 1 2 False,
   InstructionDetail 0x54 Instruction_ILL AddressMode_ILL 1 2 False,
   InstructionDetail 0x55 Instruction_EOR AddressMode_ZPX 2 4 False,
   InstructionDetail 0x56 Instruction_LSR AddressMode_ZPX 2 6 False,
   InstructionDetail 0x57 Instruction_ILL AddressMode_ILL 1 2 False,
   InstructionDetail 0x58 Instruction_CLI AddressMode_IMP 1 2 False,
   InstructionDetail 0x59 Instruction_EOR AddressMode_ABY 3 4 True,
   InstructionDetail 0x5A Instruction_ILL AddressMode_ILL 1 2 False,
   InstructionDetail 0x5B Instruction_ILL AddressMode_ILL 1 2 False,
   InstructionDetail 0x5C Instruction_ILL AddressMode_ILL 1 2 False,
   InstructionDetail 0x5D Instruction_EOR AddressMode_ABX 3 4 True,
   InstructionDetail 0x5E Instruction_LSR AddressMode_ABX 3 7 False,
   InstructionDetail 0x5F Instruction_ILL AddressMode_ILL 1 2 False,
   InstructionDetail 0x60 Instruction_RTS AddressMode_IMP 1 6 False,
   InstructionDetail 0x61 Instruction_ADC AddressMode_INX 2 6 False,
   InstructionDetail 0x62 Instruction_ILL AddressMode_ILL 1 2 False,
   InstructionDetail 0x63 Instruction_ILL AddressMode_ILL 1 2 False,
   InstructionDetail 0x64 Instruction_ILL AddressMode_ILL 1 2 False,
   InstructionDetail 0x65 Instruction_ADC AddressMode_ZPG 2 3 False,
   InstructionDetail 0x66 Instruction_ROR AddressMode_ZPG 2 5 False,
   InstructionDetail 0x67 Instruction_ILL AddressMode_ILL 1 2 False,
   InstructionDetail 0x68 Instruction_PLA AddressMode_IMP 1 4 False,
   InstructionDetail 0x69 Instruction_ADC AddressMode_IMM 2 2 False,
   InstructionDetail 0x6A Instruction_ROR AddressMode_ACC 1 2 False,
   InstructionDetail 0x6B Instruction_ILL AddressMode_ILL 1 2 False,
   InstructionDetail 0x6C Instruction_JMP AddressMode_IND 3 5 False,
   InstructionDetail 0x6D Instruction_ADC AddressMode_ABS 3 4 False,
   InstructionDetail 0x6E Instruction_ROR AddressMode_ABS 3 6 False,
   InstructionDetail 0x6F Instruction_ILL AddressMode_ILL 1 2 False,
   InstructionDetail 0x70 Instruction_BVC AddressMode_REL 2 2 True,
   InstructionDetail 0x71 Instruction_ADC AddressMode_INY 2 5 True,
   InstructionDetail 0x72 Instruction_ILL AddressMode_ILL 1 2 False,
   InstructionDetail 0x73 Instruction_ILL AddressMode_ILL 1 2 False,
   InstructionDetail 0x74 Instruction_ILL AddressMode_ILL 1 2 False,
   InstructionDetail 0x75 Instruction_ADC AddressMode_ZPX 2 4 False,
   InstructionDetail 0x76 Instruction_ROR AddressMode_ZPX 2 6 False,
   InstructionDetail 0x77 Instruction_ILL AddressMode_ILL 1 2 False,
   InstructionDetail 0x78 Instruction_SEI AddressMode_IMP 1 2 False,
   InstructionDetail 0x79 Instruction_ADC AddressMode_ABY 3 4 True,
   InstructionDetail 0x7A Instruction_ILL AddressMode_ILL 1 2 False,
   InstructionDetail 0x7B Instruction_ILL AddressMode_ILL 1 2 False,
   InstructionDetail 0x7C Instruction_ILL AddressMode_ILL 1 2 False,
   InstructionDetail 0x7D Instruction_ADC AddressMode_ABX 3 4 True,
   InstructionDetail 0x7E Instruction_ROR AddressMode_ABX 3 7 False,
   InstructionDetail 0x7F Instruction_ILL AddressMode_ILL 1 2 False,
   InstructionDetail 0x80 Instruction_ILL AddressMode_ILL 1 2 False,
   InstructionDetail 0x81 Instruction_STA AddressMode_INX 2 6 False,
   InstructionDetail 0x82 Instruction_ILL AddressMode_ILL 1 2 False,
   InstructionDetail 0x83 Instruction_ILL AddressMode_ILL 1 2 False,
   InstructionDetail 0x84 Instruction_STY AddressMode_ZPG 2 3 False,
   InstructionDetail 0x85 Instruction_STA AddressMode_ZPG 2 3 False,
   InstructionDetail 0x86 Instruction_STX AddressMode_ZPG 2 3 False,
   InstructionDetail 0x87 Instruction_ILL AddressMode_ILL 1 2 False,
   InstructionDetail 0x88 Instruction_DEY AddressMode_IMP 1 2 False,
   InstructionDetail 0x89 Instruction_ILL AddressMode_ILL 1 2 False,
   InstructionDetail 0x8A Instruction_TXA AddressMode_IMP 1 2 False,
   InstructionDetail 0x8B Instruction_ILL AddressMode_ILL 1 2 False,
   InstructionDetail 0x8C Instruction_STY AddressMode_ABS 3 4 False,
   InstructionDetail 0x8D Instruction_STA AddressMode_ABS 3 4 False,
   InstructionDetail 0x8E Instruction_STX AddressMode_ABS 3 4 False,
   InstructionDetail 0x8F Instruction_ILL AddressMode_ILL 1 2 False,
   InstructionDetail 0x90 Instruction_BCC AddressMode_REL 2 2 True,
   InstructionDetail 0x91 Instruction_STA AddressMode_INY 2 6 False,
   InstructionDetail 0x92 Instruction_ILL AddressMode_ILL 1 2 False,
   InstructionDetail 0x93 Instruction_ILL AddressMode_ILL 1 2 False,
   InstructionDetail 0x94 Instruction_STY AddressMode_ZPX 2 4 False,
   InstructionDetail 0x95 Instruction_STA AddressMode_ZPX 2 4 False,
   InstructionDetail 0x96 Instruction_STX AddressMode_ZPY 2 4 False,
   InstructionDetail 0x97 Instruction_ILL AddressMode_ILL 1 2 False,
   InstructionDetail 0x98 Instruction_TYA AddressMode_IMP 1 2 False,
   InstructionDetail 0x99 Instruction_STA AddressMode_ABY 3 5 False,
   InstructionDetail 0x9A Instruction_TXS AddressMode_IMP 1 2 False,
   InstructionDetail 0x9B Instruction_ILL AddressMode_ILL 1 2 False,
   InstructionDetail 0x9C Instruction_ILL AddressMode_ILL 1 2 False,
   InstructionDetail 0x9D Instruction_STA AddressMode_ABX 3 5 False,
   InstructionDetail 0x9E Instruction_ILL AddressMode_ILL 1 2 False,
   InstructionDetail 0x9F Instruction_ILL AddressMode_ILL 1 2 False,
   InstructionDetail 0xA0 Instruction_LDY AddressMode_IMM 2 2 False,
   InstructionDetail 0xA1 Instruction_LDA AddressMode_INX 2 6 False,
   InstructionDetail 0xA2 Instruction_LDX AddressMode_IMM 2 2 False,
   InstructionDetail 0xA3 Instruction_ILL AddressMode_ILL 1 2 False,
   InstructionDetail 0xA4 Instruction_LDY AddressMode_ZPG 2 3 False,
   InstructionDetail 0xA5 Instruction_LDA AddressMode_ZPG 2 3 False,
   InstructionDetail 0xA6 Instruction_LDX AddressMode_ZPG 2 3 False,
   InstructionDetail 0xA7 Instruction_ILL AddressMode_ILL 1 2 False,
   InstructionDetail 0xA8 Instruction_TAY AddressMode_IMP 1 2 False,
   InstructionDetail 0xA9 Instruction_LDA AddressMode_IMM 2 2 False,
   InstructionDetail 0xAA Instruction_TAX AddressMode_IMP 1 2 False,
   InstructionDetail 0xAB Instruction_ILL AddressMode_ILL 1 2 False,
   InstructionDetail 0xAC Instruction_LDY AddressMode_ABS 3 4 False,
   InstructionDetail 0xAD Instruction_LDA AddressMode_ABS 3 4 False,
   InstructionDetail 0xAE Instruction_LDX AddressMode_ABS 3 4 False,
   InstructionDetail 0xAF Instruction_ILL AddressMode_ILL 1 2 False,
   InstructionDetail 0xB0 Instruction_BCS AddressMode_REL 2 2 True,
   InstructionDetail 0xB1 Instruction_LDA AddressMode_INY 2 5 True,
   InstructionDetail 0xB2 Instruction_ILL AddressMode_ILL 1 2 False,
   InstructionDetail 0xB3 Instruction_ILL AddressMode_ILL 1 2 False,
   InstructionDetail 0xB4 Instruction_LDY AddressMode_ZPX 2 4 False,
   InstructionDetail 0xB5 Instruction_LDA AddressMode_ZPX 2 4 False,
   InstructionDetail 0xB6 Instruction_LDX AddressMode_ZPY 2 4 False,
   InstructionDetail 0xB7 Instruction_ILL AddressMode_ILL 1 2 False,
   InstructionDetail 0xB8 Instruction_CLV AddressMode_IMP 1 2 False,
   InstructionDetail 0xB9 Instruction_LDA AddressMode_ABY 3 4 True,
   InstructionDetail 0xBA Instruction_TSX AddressMode_IMP 1 2 False,
   InstructionDetail 0xBB Instruction_ILL AddressMode_ILL 1 2 False,
   InstructionDetail 0xBC Instruction_LDY AddressMode_ABX 3 4 True,
   InstructionDetail 0xBD Instruction_LDA AddressMode_ABX 3 4 True,
   InstructionDetail 0xBE Instruction_LDX AddressMode_ABY 3 4 True,
   InstructionDetail 0xBF Instruction_ILL AddressMode_ILL 1 2 False,
   InstructionDetail 0xC0 Instruction_CPY AddressMode_IMM 2 2 False,
   InstructionDetail 0xC1 Instruction_CMP AddressMode_INX 2 6 False,
   InstructionDetail 0xC2 Instruction_ILL AddressMode_ILL 1 2 False,
   InstructionDetail 0xC3 Instruction_ILL AddressMode_ILL 1 2 False,
   InstructionDetail 0xC4 Instruction_CPY AddressMode_ZPG 2 3 False,
   InstructionDetail 0xC5 Instruction_CMP AddressMode_ZPG 2 3 False,
   InstructionDetail 0xC6 Instruction_DEC AddressMode_ZPG 2 5 False,
   InstructionDetail 0xC7 Instruction_ILL AddressMode_ILL 1 2 False,
   InstructionDetail 0xC8 Instruction_INY AddressMode_IMP 1 2 False,
   InstructionDetail 0xC9 Instruction_CMP AddressMode_IMM 2 2 False,
   InstructionDetail 0xCA Instruction_DEX AddressMode_IMP 1 2 False,
   InstructionDetail 0xCB Instruction_ILL AddressMode_ILL 1 2 False,
   InstructionDetail 0xCC Instruction_CPY AddressMode_ABS 3 4 False,
   InstructionDetail 0xCD Instruction_CMP AddressMode_ABS 3 4 False,
   InstructionDetail 0xCE Instruction_DEC AddressMode_ABS 3 6 False,
   InstructionDetail 0xCF Instruction_ILL AddressMode_ILL 1 2 False,
   InstructionDetail 0xD0 Instruction_BNE AddressMode_REL 2 2 True,
   InstructionDetail 0xD1 Instruction_CMP AddressMode_INY 2 5 True,
   InstructionDetail 0xD2 Instruction_ILL AddressMode_ILL 1 2 False,
   InstructionDetail 0xD3 Instruction_ILL AddressMode_ILL 1 2 False,
   InstructionDetail 0xD4 Instruction_ILL AddressMode_ILL 1 2 False,
   InstructionDetail 0xD5 Instruction_CMP AddressMode_ZPX 2 4 False,
   InstructionDetail 0xD6 Instruction_DEC AddressMode_ZPX 2 6 False,
   InstructionDetail 0xD7 Instruction_ILL AddressMode_ILL 1 2 False,
   InstructionDetail 0xD8 Instruction_CLD AddressMode_IMP 1 2 False,
   InstructionDetail 0xD9 Instruction_CMP AddressMode_ABY 3 4 True,
   InstructionDetail 0xDA Instruction_ILL AddressMode_ILL 1 2 False,
   InstructionDetail 0xDB Instruction_ILL AddressMode_ILL 1 2 False,
   InstructionDetail 0xDC Instruction_ILL AddressMode_ILL 1 2 False,
   InstructionDetail 0xDD Instruction_CMP AddressMode_ABX 3 4 True,
   InstructionDetail 0xDE Instruction_DEC AddressMode_ABX 3 7 False,
   InstructionDetail 0xDF Instruction_ILL AddressMode_ILL 1 2 False,
   InstructionDetail 0xE0 Instruction_CPX AddressMode_IMM 2 2 False,
   InstructionDetail 0xE1 Instruction_SBC AddressMode_INX 2 6 False,
   InstructionDetail 0xE2 Instruction_ILL AddressMode_ILL 1 2 False,
   InstructionDetail 0xE3 Instruction_ILL AddressMode_ILL 1 2 False,
   InstructionDetail 0xE4 Instruction_CPX AddressMode_ZPG 2 3 False,
   InstructionDetail 0xE5 Instruction_SBC AddressMode_ZPG 2 3 False,
   InstructionDetail 0xE6 Instruction_INC AddressMode_ZPG 2 5 False,
   InstructionDetail 0xE7 Instruction_ILL AddressMode_ILL 1 2 False,
   InstructionDetail 0xE8 Instruction_INX AddressMode_IMP 1 2 False,
   InstructionDetail 0xE9 Instruction_SBC AddressMode_IMM 2 2 False,
   InstructionDetail 0xEA Instruction_NOP AddressMode_IMP 1 2 False,
   InstructionDetail 0xEB Instruction_ILL AddressMode_ILL 1 2 False,
   InstructionDetail 0xEC Instruction_CPX AddressMode_ABS 3 4 False,
   InstructionDetail 0xED Instruction_SBC AddressMode_ABS 3 4 False,
   InstructionDetail 0xEE Instruction_INC AddressMode_ABS 3 6 False,
   InstructionDetail 0xEF Instruction_ILL AddressMode_ILL 1 2 False,
   InstructionDetail 0xF0 Instruction_BEQ AddressMode_REL 2 2 True,
   InstructionDetail 0xF1 Instruction_SBC AddressMode_INY 2 5 True,
   InstructionDetail 0xF2 Instruction_ILL AddressMode_ILL 1 2 False,
   InstructionDetail 0xF3 Instruction_ILL AddressMode_ILL 1 2 False,
   InstructionDetail 0xF4 Instruction_ILL AddressMode_ILL 1 2 False,
   InstructionDetail 0xF5 Instruction_SBC AddressMode_ZPX 2 4 False,
   InstructionDetail 0xF6 Instruction_INC AddressMode_ZPX 2 6 False,
   InstructionDetail 0xF7 Instruction_ILL AddressMode_ILL 1 2 False,
   InstructionDetail 0xF8 Instruction_SED AddressMode_IMP 1 2 False,
   InstructionDetail 0xF9 Instruction_SBC AddressMode_ABY 3 4 True,
   InstructionDetail 0xFA Instruction_ILL AddressMode_ILL 1 2 False,
   InstructionDetail 0xFB Instruction_ILL AddressMode_ILL 1 2 False,
   InstructionDetail 0xFC Instruction_ILL AddressMode_ILL 1 2 False,
   InstructionDetail 0xFD Instruction_SBC AddressMode_ABX 3 4 True,
   InstructionDetail 0xFE Instruction_INC AddressMode_ABX 3 7 False
  ]"

text \<open>
  \<^verbatim>\<open>InstructionDetails[opcode]\<close>.  Indexing a \<^verbatim>\<open>std::array\<close> beyond its
  size is undefined behaviour; the model makes it an error value.
\<close>

datatype error = IndexOutOfBounds

definition InstructionDetails_at :: "byte \<Rightarrow> error + InstructionDetail" where
  "InstructionDetails_at opcode =
     (if unat opcode < length InstructionDetails
      then Inr (InstructionDetails ! unat opcode)
      else Inl IndexOutOfBounds)"

text \<open>
  \<^verbatim>\<open>FindInstructionDetail\<close>: the first row with the given mnemonic and
  addressing mode, or the first illegal row (index 2).
\<close>

definition FindInstructionDetail :: "Instruction \<Rightarrow> AddressMode \<Rightarrow> InstructionDetail" where
  "FindInstructionDetail inst addr =
     (case find (\<lambda>itr. instruction itr = inst \<and> addressing itr = addr) InstructionDetails of
        Some itr \<Rightarrow> itr
      | None \<Rightarrow> InstructionDetails ! 2)"

section \<open>The CPU (cpu.h, cpu.cpp)\<close>

text \<open>
  \<^verbatim>\<open>enum class StatusFlag : byte\<close> with its values \<^verbatim>\<open>(1 << 0)\<close> to
  \<^verbatim>\<open>(1 << 7)\<close>; \<open>flag_value\<close> is \<^verbatim>\<open>static_cast<byte>(f)\<close>.
\<close>

datatype StatusFlag =
  CARRY | ZERO | INTERRUPT | DECIMAL | BREAK | UNUSED | INT_OVERFLOW | NEGATIVE

fun flag_value :: "StatusFlag \<Rightarrow> byte" where
  "flag_value CARRY = 0x01"
| "flag_value ZERO = 0x02"
| "flag_value INTERRUPT = 0x04"
| "flag_value DECIMAL = 0x08"
| "flag_value BREAK = 0x10"
| "flag_value UNUSED = 0x20"
| "flag_value INT_OVERFLOW = 0x40"
| "flag_value NEGATIVE = 0x80"

text \<open>
  The registers and the bookkeeping fields of \<^verbatim>\<open>class CPU\<close>.  The union
  \<^verbatim>\<open>Status\<close> is its byte \<^verbatim>\<open>value\<close>.  The CPU reaches memory through the bus
  it was constructed with (\<^verbatim>\<open>m_Bus\<close> may be null), as \<^verbatim>\<open>main\<close> and
  \<^verbatim>\<open>Device\<close> wire it; the state of the memory behind the bus is carried in
  the CPU state.
\<close>

record CPU =
  m_PC :: word16
  m_SP :: byte
  m_Acc :: byte
  m_X :: byte
  m_Y :: byte
  m_ProcStatus :: byte
  m_Bus :: "Bus option"
  m_CyclesRem :: fast_byte
  m_CyclesExecuted :: "32 word"
  m_WasSupplied :: bool
  m_SuppliedValue :: byte

text \<open>\<^verbatim>\<open>CPU::CPU(ioptr bus)\<close> with the default member initialisers.\<close>

definition CPU_Make :: "Bus option \<Rightarrow> CPU" where
  "CPU_Make bus =
     \<lparr>m_PC = 0, m_SP = 0, m_Acc = 0, m_X = 0, m_Y = 0, m_ProcStatus = 0,
      m_Bus = bus, m_CyclesRem = 0, m_CyclesExecuted = 0,
      m_WasSupplied = False, m_SuppliedValue = 0\<rparr>"

definition GetStatusFlag :: "CPU \<Rightarrow> StatusFlag \<Rightarrow> byte" where
  "GetStatusFlag s f = (if m_ProcStatus s AND flag_value f \<noteq> 0 then 1 else 0)"

definition HasStatusFlag :: "CPU \<Rightarrow> StatusFlag \<Rightarrow> bool" where
  "HasStatusFlag s f = (m_ProcStatus s AND flag_value f \<noteq> 0)"

definition SetStatusFlag :: "StatusFlag \<Rightarrow> bool \<Rightarrow> CPU \<Rightarrow> CPU" where
  "SetStatusFlag f v s =
     (if v then s\<lparr>m_ProcStatus := m_ProcStatus s OR flag_value f\<rparr>
      else s\<lparr>m_ProcStatus := m_ProcStatus s AND NOT (flag_value f)\<rparr>)"

definition ClearSupplied :: "CPU \<Rightarrow> CPU" where
  "ClearSupplied s = s\<lparr>m_WasSupplied := False, m_SuppliedValue := 0\<rparr>"

definition SetSupplied :: "byte \<Rightarrow> CPU \<Rightarrow> CPU" where
  "SetSupplied val s = s\<lparr>m_WasSupplied := True, m_SuppliedValue := val\<rparr>"

definition CPU_ReadByte :: "CPU \<Rightarrow> address \<Rightarrow> byte" where
  "CPU_ReadByte s addr =
     (case m_Bus s of Some bus \<Rightarrow> Bus_ReadByte bus addr | None \<Rightarrow> 0)"

definition CPU_ReadWord :: "CPU \<Rightarrow> address \<Rightarrow> word16" where
  "CPU_ReadWord s addr =
     (case m_Bus s of Some bus \<Rightarrow> Bus_ReadWord bus addr | None \<Rightarrow> 0)"

definition CPU_WriteByte :: "address \<Rightarrow> byte \<Rightarrow> CPU \<Rightarrow> CPU" where
  "CPU_WriteByte addr data s =
     (case m_Bus s of
        Some bus \<Rightarrow> s\<lparr>m_Bus := Some (Bus_WriteByte bus addr data)\<rparr>
      | None \<Rightarrow> s)"

definition FetchData :: "CPU \<Rightarrow> address \<Rightarrow> byte" where
  "FetchData s addr =
     (if m_WasSupplied s then m_SuppliedValue s else CPU_ReadByte s addr)"

definition PushToStack :: "byte \<Rightarrow> CPU \<Rightarrow> CPU" where
  "PushToStack data s =
     (let pointer = address_of (uint ADDRESS_STACK + uint (m_SP s));
          s1 = s\<lparr>m_SP := m_SP s - 1\<rparr>
      in CPU_WriteByte pointer data s1)"

definition PullFromStack :: "CPU \<Rightarrow> byte \<times> CPU" where
  "PullFromStack s =
     (let s1 = s\<lparr>m_SP := m_SP s + 1\<rparr>;
          pointer = address_of (uint ADDRESS_STACK + uint (m_SP s1))
      in (CPU_ReadByte s1 pointer, s1))"

subsection \<open>Addressing modes\<close>

text \<open>
  Every \<^verbatim>\<open>Addr_\<close> function returns the effective address and the value it
  stores into \<^verbatim>\<open>outCycles\<close>, next to the updated CPU.
\<close>

definition Addr_ABS :: "CPU \<Rightarrow> address \<times> fast_byte \<times> CPU" where
  "Addr_ABS s =
     (let low = CPU_ReadByte s (m_PC s);
          s1 = s\<lparr>m_PC := m_PC s + 1\<rparr>;
          high = CPU_ReadByte s1 (m_PC s1);
          s2 = s1\<lparr>m_PC := m_PC s1 + 1\<rparr>;
          addr = address_of (MAKE_WORD (uint low) (uint high))
      in (addr, 3, s2))"

definition Addr_ABX :: "CPU \<Rightarrow> address \<times> fast_byte \<times> CPU" where
  "Addr_ABX s =
     (let low = CPU_ReadByte s (m_PC s);
          s1 = s\<lparr>m_PC := m_PC s + 1\<rparr>;
          high = CPU_ReadByte s1 (m_PC s1);
          s2 = s1\<lparr>m_PC := m_PC s1 + 1\<rparr>;
          addr = address_of (MAKE_WORD (uint low) (uint high) + uint (m_X s2))
      in (addr, if page addr \<noteq> high then 4 else 3, s2))"

definition Addr_ABY :: "CPU \<Rightarrow> address \<times> fast_byte \<times> CPU" where
  "Addr_ABY s =
     (let low = CPU_ReadByte s (m_PC s);
          s1 = s\<lparr>m_PC := m_PC s + 1\<rparr>;
          high = CPU_ReadByte s1 (m_PC s1);
          s2 = s1\<lparr>m_PC := m_PC s1 + 1\<rparr>;
          addr = address_of (MAKE_WORD (uint low) (uint high) + uint (m_Y s2))
      in (addr, if page addr \<noteq> high then 4 else 3, s2))"

definition Addr_ACC :: "CPU \<Rightarrow> address \<times> fast_byte \<times> CPU" where
  "Addr_ACC s =
     (let s1 = SetSupplied (m_Acc s) s
      in (m_PC s1, 1, s1))"

definition Addr_IMM :: "CPU \<Rightarrow> address \<times> fast_byte \<times> CPU" where
  "Addr_IMM s =
     (let addr = m_PC s;
          s1 = s\<lparr>m_PC := m_PC s + 1\<rparr>
      in (addr, 1, s1))"

definition Addr_IMP :: "CPU \<Rightarrow> address \<times> fast_byte \<times> CPU" where
  "Addr_IMP s =
     (let s1 = SetSupplied (m_Acc s) s
      in (address_of 0, 1, s1))"

definition Addr_IND :: "CPU \<Rightarrow> address \<times> fast_byte \<times> CPU" where
  "Addr_IND s =
     (let low = CPU_ReadByte s (m_PC s);
          s1 = s\<lparr>m_PC := m_PC s + 1\<rparr>;
          high = CPU_ReadByte s1 (m_PC s1);
          s2 = s1\<lparr>m_PC := m_PC s1 + 1\<rparr>;
          pointer = address_of (MAKE_WORD (uint low) (uint high));
          low' = CPU_ReadByte s2 pointer;
          high' = (if record_of pointer = 0xFF
                   then CPU_ReadByte s2 (address_of (uint pointer AND 0xFF00))
                   else CPU_ReadByte s2 (address_of (uint pointer + 1)))
      in (address_of (MAKE_WORD (uint low') (uint high')), 4, s2))"

definition Addr_INX :: "CPU \<Rightarrow> address \<times> fast_byte \<times> CPU" where
  "Addr_INX s =
     (let table = (ucast (CPU_ReadByte s (m_PC s)) :: word16);
          s1 = s\<lparr>m_PC := m_PC s + 1\<rparr>;
          xword = (ucast (m_X s1) :: word16);
          low = CPU_ReadByte s1 (address_of ((uint table + uint xword) AND 0x00FF));
          high = CPU_ReadByte s1 (address_of ((uint table + uint xword + 1) AND 0xFF00))
      in (address_of (MAKE_WORD (uint low) (uint high)), 5, s1))"

definition Addr_INY :: "CPU \<Rightarrow> address \<times> fast_byte \<times> CPU" where
  "Addr_INY s =
     (let table = (ucast (CPU_ReadByte s (m_PC s)) :: word16);
          s1 = s\<lparr>m_PC := m_PC s + 1\<rparr>;
          low = CPU_ReadByte s1 (address_of (uint table AND 0x00FF));
          high = CPU_ReadByte s1 (address_of ((uint table + 1) AND 0x00FF));
          addr = address_of (MAKE_WORD (uint low) (uint high) + uint (m_Y s1))
      in (addr, if page addr \<noteq> high then 5 else 4, s1))"

text \<open>
  In \<^verbatim>\<open>Addr_REL\<close> the variable \<^verbatim>\<open>rel\<close> is a byte, so the assignment
  \<^verbatim>\<open>rel |= 0xFF00\<close> is truncated to 8 bits.
\<close>

definition Addr_REL :: "CPU \<Rightarrow> address \<times> fast_byte \<times> CPU" where
  "Addr_REL s =
     (let rel = CPU_ReadByte s (m_PC s);
          s1 = s\<lparr>m_PC := m_PC s + 1\<rparr>;
          rel' = (if uint rel AND 0x80 \<noteq> 0
                  then (word_of_int (uint rel OR 0xFF00) :: byte)
                  else rel)
      in (address_of (uint rel'), 1, s1))"

definition Addr_ZPG :: "CPU \<Rightarrow> address \<times> fast_byte \<times> CPU" where
  "Addr_ZPG s =
     (let addr = address_of (uint (CPU_ReadByte s (m_PC s)));
          s1 = s\<lparr>m_PC := m_PC s + 1\<rparr>
      in (addr, 2, s1))"

definition Addr_ZPX :: "CPU \<Rightarrow> address \<times> fast_byte \<times> CPU" where
  "Addr_ZPX s =
     (let low = CPU_ReadByte s (m_PC s);
          s1 = s\<lparr>m_PC := m_PC s + 1\<rparr>;
          addr = address_of ((uint low + uint (m_X s1)) AND 0x00FF)
      in (addr, 3, s1))"

definition Addr_ZPY :: "CPU \<Rightarrow> address \<times> fast_byte \<times> CPU" where
  "Addr_ZPY s =
     (let low = CPU_ReadByte s (m_PC s);
          s1 = s\<lparr>m_PC := m_PC s + 1\<rparr>;
          addr = address_of ((uint low + uint (m_Y s1)) AND 0x00FF)
      in (addr, 3, s1))"

text \<open>
  \<^verbatim>\<open>ExecuteAddressing\<close>: for the illegal mode, \<^verbatim>\<open>outCycles\<close> keeps the value
  the caller passed in and the address 0 is returned.
\<close>

definition ExecuteAddressing :: "AddressMode \<Rightarrow> fast_byte \<Rightarrow> CPU \<Rightarrow> address \<times> fast_byte \<times> CPU" where
  "ExecuteAddressing addrMode outCycles s =
     (let s0 = ClearSupplied s in
      case addrMode of
        AddressMode_ILL \<Rightarrow> (address_of 0, outCycles, s0)
      | AddressMode_ABS \<Rightarrow> Addr_ABS s0
      | AddressMode_ABX \<Rightarrow> Addr_ABX s0
      | AddressMode_ABY \<Rightarrow> Addr_ABY s0
      | AddressMode_ACC \<Rightarrow> Addr_ACC s0
      | AddressMode_IMM \<Rightarrow> Addr_IMM s0
      | AddressMode_IMP \<Rightarrow> Addr_IMP s0
      | AddressMode_IND \<Rightarrow> Addr_IND s0
      | AddressMode_INX \<Rightarrow> Addr_INX s0
      | AddressMode_INY \<Rightarrow> Addr_INY s0
      | AddressMode_REL \<Rightarrow> Addr_REL s0
      | AddressMode_ZPG \<Rightarrow> Addr_ZPG s0
      | AddressMode_ZPX \<Rightarrow> Addr_ZPX s0
      | AddressMode_ZPY \<Rightarrow> Addr_ZPY s0)"

subsection \<open>Instructions (cpu_instructions.cpp)\<close>

text \<open>
  Every instruction handler returns its cycle count next to the updated CPU.
  A value passed for the \<^verbatim>\<open>bool\<close> parameter of \<^verbatim>\<open>SetStatusFlag\<close> is true
  when it is not 0.
\<close>

text \<open>Integer division of C++, which truncates towards zero.\<close>

definition c_div :: "int \<Rightarrow> int \<Rightarrow> int" where
  "c_div a b = sgn a * sgn b * (\<bar>a\<bar> div \<bar>b\<bar>)"

text \<open>
  \<^verbatim>\<open>Branch\<close>: \<^verbatim>\<open>nextPC.page\<close> is a byte and \<^verbatim>\<open>m_PC & 0xFF00\<close> is the
  masked program counter, both compared as \<^verbatim>\<open>int\<close>.
\<close>

definition Branch :: "address \<Rightarrow> CPU \<Rightarrow> fast_byte \<times> CPU" where
  "Branch addr s =
     (let nextPC = address_of (uint (m_PC s) + uint addr);
          cycles = (if uint (page nextPC) \<noteq> (uint (m_PC s) AND 0xFF00) then 3 else 2);
          s1 = s\<lparr>m_PC := nextPC\<rparr>
      in (cycles, s1))"

definition Ins_ADC :: "address \<Rightarrow> CPU \<Rightarrow> fast_byte \<times> CPU" where
  "Ins_ADC addr s =
     (let (result, s1) =
        (if HasStatusFlag s DECIMAL then
           (let acc_i = (uint (m_Acc s) AND 0xF) + ((drop_bit 4 (uint (m_Acc s))) AND 0xF) * 10;
                val = FetchData s addr;
                val_i = (uint val AND 0xF) + ((drop_bit 4 (uint val)) AND 0xF) * 10;
                temp = acc_i + val_i + uint (GetStatusFlag s CARRY);
                hundreds = c_div temp 100;
                tens = c_div (temp - (hundreds * 100)) 10;
                ones = temp - (hundreds * 100) - (tens * 10);
                result = (word_of_int ((push_bit 4 tens) OR ones) :: word16)
            in (result, SetStatusFlag CARRY (uint result > 0x99) s))
         else
           (let carry = (ucast (GetStatusFlag s CARRY) :: word16);
                acc = (ucast (m_Acc s) :: word16);
                val = (ucast (FetchData s addr) :: word16);
                result = (word_of_int (uint acc + uint val + uint carry) :: word16);
                sa = SetStatusFlag CARRY (uint result > 0xFF) s;
                sb = SetStatusFlag INT_OVERFLOW
                       (((NOT (uint acc XOR uint val)) AND (uint acc XOR uint result)) AND 0x0080 \<noteq> 0) sa
            in (result, sb)));
          s2 = SetStatusFlag ZERO (GET_LOW_BYTE (uint result) = 0) s1;
          s3 = SetStatusFlag NEGATIVE (IS_NEGATIVE (uint result) \<noteq> 0) s2;
          s4 = s3\<lparr>m_Acc := word_of_int (GET_LOW_BYTE (uint result))\<rparr>
      in (1, s4))"

definition Ins_AND :: "address \<Rightarrow> CPU \<Rightarrow> fast_byte \<times> CPU" where
  "Ins_AND addr s =
     (let s1 = s\<lparr>m_Acc := m_Acc s AND FetchData s addr\<rparr>;
          s2 = SetStatusFlag ZERO (m_Acc s1 = 0) s1;
          s3 = SetStatusFlag NEGATIVE (IS_NEGATIVE (uint (m_Acc s2)) \<noteq> 0) s2
      in (1, s3))"

definition Ins_ASL :: "address \<Rightarrow> CPU \<Rightarrow> fast_byte \<times> CPU" where
  "Ins_ASL addr s =
     (let result = (word_of_int (push_bit 1 (uint (FetchData s addr))) :: word16);
          s1 = SetStatusFlag CARRY (uint result > 0xFF) s;
          s2 = SetStatusFlag ZERO (GET_LOW_BYTE (uint result) = 0) s1;
          s3 = SetStatusFlag NEGATIVE (IS_NEGATIVE (uint result) \<noteq> 0) s2;
          s4 = s3\<lparr>m_Acc := word_of_int (uint result AND 0x00FF)\<rparr>
      in (1, s4))"

definition Ins_BCC :: "address \<Rightarrow> CPU \<Rightarrow> fast_byte \<times> CPU" where
  "Ins_BCC addr s =
     (if HasStatusFlag s CARRY = False then Branch addr s else (1, s))"

definition Ins_BCS :: "address \<Rightarrow> CPU \<Rightarrow> fast_byte \<times> CPU" where
  "Ins_BCS addr s =
     (if HasStatusFlag s CARRY = True then Branch addr s else (1, s))"

definition Ins_BEQ :: "address \<Rightarrow> CPU \<Rightarrow> fast_byte \<times> CPU" where
  "Ins_BEQ addr s =
     (if HasStatusFlag s ZERO = True then Branch addr s else (1, s))"

definition Ins_BIT :: "address \<Rightarrow> CPU \<Rightarrow> fast_byte \<times> CPU" where
  "Ins_BIT addr s =
     (let val = FetchData s addr;
          result = m_Acc s AND val;
          s1 = SetStatusFlag ZERO (result = 0) s;
          s2 = SetStatusFlag INT_OVERFLOW (uint val AND 0x40 \<noteq> 0) s1;
          s3 = SetStatusFlag NEGATIVE (IS_NEGATIVE (uint val) \<noteq> 0) s2
      in (1, s3))"

definition Ins_BMI :: "address \<Rightarrow> CPU \<Rightarrow> fast_byte \<times> CPU" where
  "Ins_BMI addr s =
     (if HasStatusFlag s NEGATIVE = True then Branch addr s else (1, s))"

definition Ins_BNE :: "address \<Rightarrow> CPU \<Rightarrow> fast_byte \<times> CPU" where
  "Ins_BNE addr s =
     (if HasStatusFlag s ZERO = False then Branch addr s else (1, s))"

definition Ins_BPL :: "address \<Rightarrow> CPU \<Rightarrow> fast_byte \<times> CPU" where
  "Ins_BPL addr s =
     (if HasStatusFlag s NEGATIVE = False then Branch addr s else (1, s))"

definition Ins_BRK :: "address \<Rightarrow> CPU \<Rightarrow> fast_byte \<times> CPU" where
  "Ins_BRK addr s =
     (let s1 = s\<lparr>m_PC := m_PC s + 1\<rparr>;
          s2 = PushToStack (word_of_int (GET_HIGH_BYTE (uint (m_PC s1)))) s1;
          s3 = PushToStack (word_of_int (GET_LOW_BYTE (uint (m_PC s2)))) s2;
          s4 = PushToStack (m_ProcStatus s3) s3;
          low = CPU_ReadByte s4 0xFFFE;
          high = CPU_ReadByte s4 0xFFFF;
          s5 = s4\<lparr>m_PC := word_of_int (MAKE_WORD (uint low) (uint high))\<rparr>;
          s6 = SetStatusFlag BREAK True s5
      in (6, s6))"

definition Ins_BVC :: "address \<Rightarrow> CPU \<Rightarrow> fast_byte \<times> CPU" where
  "Ins_BVC addr s =
     (if HasStatusFlag s INT_OVERFLOW = False then Branch addr s else (1, s))"

definition Ins_BVS :: "address \<Rightarrow> CPU \<Rightarrow> fast_byte \<times> CPU" where
  "Ins_BVS addr s =
     (if HasStatusFlag s INT_OVERFLOW = True then Branch addr s else (1, s))"

definition Ins_CLC :: "address \<Rightarrow> CPU \<Rightarrow> fast_byte \<times> CPU" where
  "Ins_CLC addr s = (1, SetStatusFlag CARRY False s)"

definition Ins_CLD :: "address \<Rightarrow> CPU \<Rightarrow> fast_byte \<times> CPU" where
  "Ins_CLD addr s = (1, SetStatusFlag DECIMAL False s)"

definition Ins_CLI :: "address \<Rightarrow> CPU \<Rightarrow> fast_byte \<times> CPU" where
  "Ins_CLI addr s = (1, SetStatusFlag INTERRUPT False s)"

definition Ins_CLV :: "address \<Rightarrow> CPU \<Rightarrow> fast_byte \<times> CPU" where
  "Ins_CLV addr s = (1, SetStatusFlag INT_OVERFLOW False s)"

definition Ins_CMP :: "address \<Rightarrow> CPU \<Rightarrow> fast_byte \<times> CPU" where
  "Ins_CMP addr s =
     (let val = FetchData s addr;
          result = (word_of_int (uint (m_Acc s) - uint val) :: byte);
          s1 = SetStatusFlag CARRY (uint (m_Acc s) \<ge> uint val) s;
          s2 = SetStatusFlag ZERO (result = 0) s1;
          s3 = SetStatusFlag NEGATIVE (IS_NEGATIVE (uint result) \<noteq> 0) s2
      in (1, s3))"

definition Ins_CPX :: "address \<Rightarrow> CPU \<Rightarrow> fast_byte \<times> CPU" where
  "Ins_CPX addr s =
     (let val = FetchData s addr;
          result = (word_of_int (uint (m_X s) - uint val) :: byte);
          s1 = SetStatusFlag CARRY (uint (m_X s) \<ge> uint val) s;
          s2 = SetStatusFlag ZERO (result = 0) s1;
          s3 = SetStatusFlag NEGATIVE (IS_NEGATIVE (uint result) \<noteq> 0) s2
      in (1, s3))"

definition Ins_CPY :: "address \<Rightarrow> CPU \<Rightarrow> fast_byte \<times> CPU" where
  "Ins_CPY addr s =
     (let val = FetchData s addr;
          result = (word_of_int (uint (m_Y s) - uint val) :: byte);
          s1 = SetStatusFlag CARRY (uint (m_Y s) \<ge> uint val) s;
          s2 = SetStatusFlag ZERO (result = 0) s1;
          s3 = SetStatusFlag NEGATIVE (IS_NEGATIVE (uint result) \<noteq> 0) s2
      in (1, s3))"

definition Ins_DEC :: "address \<Rightarrow> CPU \<Rightarrow> fast_byte \<times> CPU" where
  "Ins_DEC addr s =
     (let val = FetchData s addr - 1;
          s1 = CPU_WriteByte addr val s;
          s2 = SetStatusFlag ZERO (val = 0) s1;
          s3 = SetStatusFlag NEGATIVE (IS_NEGATIVE (uint val) \<noteq> 0) s2
      in (3, s3))"

definition Ins_DEX :: "address \<Rightarrow> CPU \<Rightarrow> fast_byte \<times> CPU" where
  "Ins_DEX addr s =
     (let s1 = s\<lparr>m_X := m_X s - 1\<rparr>;
          s2 = SetStatusFlag ZERO (m_X s1 = 0) s1;
          s3 = SetStatusFlag NEGATIVE (IS_NEGATIVE (uint (m_X s2)) \<noteq> 0) s2
      in (1, s3))"

definition Ins_DEY :: "address \<Rightarrow> CPU \<Rightarrow> fast_byte \<times> CPU" where
  "Ins_DEY addr s =
     (let s1 = s\<lparr>m_Y := m_Y s - 1\<rparr>;
          s2 = SetStatusFlag ZERO (m_Y s1 = 0) s1;
          s3 = SetStatusFlag NEGATIVE (IS_NEGATIVE (uint (m_Y s2)) \<noteq> 0) s2
      in (1, s3))"

definition Ins_EOR :: "address \<Rightarrow> CPU \<Rightarrow> fast_byte \<times> CPU" where
  "Ins_EOR addr s =
     (let val = FetchData s addr;
          s1 = s\<lparr>m_Acc := m_Acc s XOR val\<rparr>;
          s2 = SetStatusFlag ZERO (m_Acc s1 = 0) s1;
          s3 = SetStatusFlag NEGATIVE (IS_NEGATIVE (uint (m_Acc s2)) \<noteq> 0) s2
      in (1, s3))"

definition Ins_INC :: "address \<Rightarrow> CPU \<Rightarrow> fast_byte \<times> CPU" where
  "Ins_INC addr s =
     (let val = FetchData s addr + 1;
          s1 = CPU_WriteByte addr val s;
          s2 = SetStatusFlag ZERO (val = 0) s1;
          s3 = SetStatusFlag NEGATIVE (IS_NEGATIVE (uint val) \<noteq> 0) s2
      in (3, s3))"

definition Ins_INX :: "address \<Rightarrow> CPU \<Rightarrow> fast_byte \<times> CPU" where
  "Ins_INX addr s =
     (let s1 = s\<lparr>m_X := m_X s + 1\<rparr>;
          s2 = SetStatusFlag ZERO (m_X s1 = 0) s1;
          s3 = SetStatusFlag NEGATIVE (IS_NEGATIVE (uint (m_X s2)) \<noteq> 0) s2
      in (1, s3))"

definition Ins_INY :: "address \<Rightarrow> CPU \<Rightarrow> fast_byte \<times> CPU" where
  "Ins_INY addr s =
     (let s1 = s\<lparr>m_Y := m_Y s + 1\<rparr>;
          s2 = SetStatusFlag ZERO (m_Y s1 = 0) s1;
          s3 = SetStatusFlag NEGATIVE (IS_NEGATIVE (uint (m_Y s2)) \<noteq> 0) s2
      in (1, s3))"

definition Ins_JMP :: "address \<Rightarrow> CPU \<Rightarrow> fast_byte \<times> CPU" where
  "Ins_JMP addr s = (1, s\<lparr>m_PC := addr\<rparr>)"

definition Ins_JSR :: "address \<Rightarrow> CPU \<Rightarrow> fast_byte \<times> CPU" where
  "Ins_JSR addr s =
     (let s1 = s\<lparr>m_PC := m_PC s - 1\<rparr>;
          s2 = PushToStack (word_of_int (GET_HIGH_BYTE (uint (m_PC s1)))) s1;
          s3 = PushToStack (word_of_int (GET_LOW_BYTE (uint (m_PC s2)))) s2;
          s4 = s3\<lparr>m_PC := addr\<rparr>
      in (3, s4))"

definition Ins_LDA :: "address \<Rightarrow> CPU \<Rightarrow> fast_byte \<times> CPU" where
  "Ins_LDA addr s =
     (let s1 = s\<lparr>m_Acc := FetchData s addr\<rparr>;
          s2 = SetStatusFlag ZERO (m_Acc s1 = 0) s1;
          s3 = SetStatusFlag NEGATIVE (IS_NEGATIVE (uint (m_Acc s2)) \<noteq> 0) s2
      in (1, s3))"

definition Ins_LDX :: "address \<Rightarrow> CPU \<Rightarrow> fast_byte \<times> CPU" where
  "Ins_LDX addr s =
     (let s1 = s\<lparr>m_X := FetchData s addr\<rparr>;
          s2 = SetStatusFlag ZERO (m_X s1 = 0) s1;
          s3 = SetStatusFlag NEGATIVE (IS_NEGATIVE (uint (m_X s2)) \<noteq> 0) s2
      in (1, s3))"

definition Ins_LDY :: "address \<Rightarrow> CPU \<Rightarrow> fast_byte \<times> CPU" where
  "Ins_LDY addr s =
     (let s1 = s\<lparr>m_Y := FetchData s addr\<rparr>;
          s2 = SetStatusFlag ZERO (m_Y s1 = 0) s1;
          s3 = SetStatusFlag NEGATIVE (IS_NEGATIVE (uint (m_Y s2)) \<noteq> 0) s2
      in (1, s3))"

definition Ins_LSR :: "address \<Rightarrow> CPU \<Rightarrow> fast_byte \<times> CPU" where
  "Ins_LSR addr s =
     (let val = FetchData s addr;
          result = (word_of_int (drop_bit 1 (uint val)) :: byte);
          s1 = SetStatusFlag CARRY (uint val AND 0x01 \<noteq> 0) s;
          s2 = SetStatusFlag ZERO (result = 0) s1;
          s3 = SetStatusFlag NEGATIVE (IS_NEGATIVE (uint result) \<noteq> 0) s2;
          s4 = s3\<lparr>m_Acc := result\<rparr>
      in (1, s4))"

definition Ins_NOP :: "address \<Rightarrow> CPU \<Rightarrow> fast_byte \<times> CPU" where
  "Ins_NOP addr s = (1, s)"

definition Ins_ORA :: "address \<Rightarrow> CPU \<Rightarrow> fast_byte \<times> CPU" where
  "Ins_ORA addr s =
     (let s1 = s\<lparr>m_Acc := m_Acc s OR FetchData s addr\<rparr>;
          s2 = SetStatusFlag ZERO (m_Acc s1 = 0) s1;
          s3 = SetStatusFlag NEGATIVE (IS_NEGATIVE (uint (m_Acc s2)) \<noteq> 0) s2
      in (1, s3))"

definition Ins_PHA :: "address \<Rightarrow> CPU \<Rightarrow> fast_byte \<times> CPU" where
  "Ins_PHA addr s = (2, PushToStack (m_Acc s) s)"

definition Ins_PHP :: "address \<Rightarrow> CPU \<Rightarrow> fast_byte \<times> CPU" where
  "Ins_PHP addr s = (2, PushToStack (m_ProcStatus s) s)"

definition Ins_PLA :: "address \<Rightarrow> CPU \<Rightarrow> fast_byte \<times> CPU" where
  "Ins_PLA addr s =
     (let (val, s0) = PullFromStack s;
          s1 = s0\<lparr>m_Acc := val\<rparr>;
          s2 = SetStatusFlag ZERO (m_Acc s1 = 0) s1;
          s3 = SetStatusFlag NEGATIVE (IS_NEGATIVE (uint (m_Acc s2)) \<noteq> 0) s2
      in (3, s3))"

definition Ins_PLP :: "address \<Rightarrow> CPU \<Rightarrow> fast_byte \<times> CPU" where
  "Ins_PLP addr s =
     (let (val, s0) = PullFromStack s;
          s1 = s0\<lparr>m_ProcStatus := val\<rparr>;
          s2 = SetStatusFlag UNUSED True s1
      in (3, s2))"

definition Ins_ROL :: "address \<Rightarrow> CPU \<Rightarrow> fast_byte \<times> CPU" where
  "Ins_ROL addr s =
     (let val = FetchData s addr;
          result = (word_of_int ((push_bit 1 (uint val)) OR uint (GetStatusFlag s CARRY)) :: byte);
          s1 = SetStatusFlag CARRY (uint val AND 0x80 \<noteq> 0) s;
          s2 = SetStatusFlag ZERO (result = 0) s1;
          s3 = SetStatusFlag NEGATIVE (IS_NEGATIVE (uint result) \<noteq> 0) s2
      in if m_WasSupplied s3
         then (1, s3\<lparr>m_Acc := result\<rparr>)
         else (1 + 1, CPU_WriteByte addr result s3))"

definition Ins_ROR :: "address \<Rightarrow> CPU \<Rightarrow> fast_byte \<times> CPU" where
  "Ins_ROR addr s =
     (let val = FetchData s addr;
          result = (word_of_int ((drop_bit 1 (uint val)) OR (push_bit 8 (uint (GetStatusFlag s CARRY)))) :: byte);
          s1 = SetStatusFlag CARRY (uint val AND 0x01 \<noteq> 0) s;
          s2 = SetStatusFlag ZERO (result = 0) s1;
          s3 = SetStatusFlag NEGATIVE (IS_NEGATIVE (uint result) \<noteq> 0) s2
      in if m_WasSupplied s3
         then (1, s3\<lparr>m_Acc := result\<rparr>)
         else (1 + 1, CPU_WriteByte addr result s3))"

definition Ins_RTI :: "address \<Rightarrow> CPU \<Rightarrow> fast_byte \<times> CPU" where
  "Ins_RTI addr s =
     (let (val, s0) = PullFromStack s;
          s1 = s0\<lparr>m_ProcStatus := val\<rparr>;
          s2 = SetStatusFlag UNUSED True s1;
          (low, s3) = PullFromStack s2;
          (high, s4) = PullFromStack s3;
          s5 = s4\<lparr>m_PC := word_of_int (MAKE_WORD (uint low) (uint high))\<rparr>
      in (5, s5))"

definition Ins_RTS :: "address \<Rightarrow> CPU \<Rightarrow> fast_byte \<times> CPU" where
  "Ins_RTS addr s =
     (let (low, s1) = PullFromStack s;
          (high, s2) = PullFromStack s1;
          s3 = s2\<lparr>m_PC := word_of_int (MAKE_WORD (uint low) (uint high) + 1)\<rparr>
      in (5, s3))"

text \<open>
  \<^verbatim>\<open>Ins_SBC\<close>.  In decimal mode \<^verbatim>\<open>temp\<close> is an \<^verbatim>\<open>int\<close> and may be negative;
  in binary mode the sum is stored into the 16-bit \<^verbatim>\<open>result\<close>, which is
  incremented when it has no bit above bit 7.
\<close>

definition Ins_SBC :: "address \<Rightarrow> CPU \<Rightarrow> fast_byte \<times> CPU" where
  "Ins_SBC addr s =
     (let (result, s1) =
        (if HasStatusFlag s DECIMAL then
           (let acc_i = (uint (m_Acc s) AND 0xF) + ((drop_bit 4 (uint (m_Acc s))) AND 0xF) * 10;
                val = FetchData s addr;
                val_i = (uint val AND 0xF) + ((drop_bit 4 (uint val)) AND 0xF) * 10;
                temp0 = acc_i - val_i - (if HasStatusFlag s CARRY then 0 else 1);
                temp = (if temp0 < 0 then temp0 + 2 else temp0);
                hundreds = \<bar>c_div temp 100\<bar>;
                tens0 = c_div (\<bar>temp\<bar> - (hundreds * 100)) 10;
                ones0 = \<bar>temp\<bar> - (hundreds * 100) - (tens0 * 10);
                tens = (if temp < 0 then 9 - tens0 else tens0);
                ones = (if temp < 0 then 9 - ones0 else ones0);
                result = (word_of_int ((push_bit 4 tens) OR ones) :: word16)
            in (result, SetStatusFlag CARRY (temp > 0) s))
         else
           (let carry = (ucast (GetStatusFlag s CARRY) :: word16);
                acc = (ucast (m_Acc s) :: word16);
                val = (ucast (FetchData s addr) :: word16);
                result0 = (word_of_int (uint acc + (uint val XOR 0xFF) + uint carry) :: word16);
                result = (if uint result0 AND 0xFF00 = 0 then result0 + 1 else result0);
                sa = SetStatusFlag CARRY (uint result < 0xFF) s;
                sb = SetStatusFlag INT_OVERFLOW
                       (((NOT (uint acc XOR uint val)) AND (uint acc XOR uint result)) AND 0x0080 \<noteq> 0) sa
            in (result, sb)));
          s2 = SetStatusFlag ZERO (GET_LOW_BYTE (uint result) = 0) s1;
          s3 = SetStatusFlag NEGATIVE (IS_NEGATIVE (uint result) \<noteq> 0) s2;
          s4 = s3\<lparr>m_Acc := word_of_int (GET_LOW_BYTE (uint result))\<rparr>
      in (1, s4))"

definition Ins_SEC :: "address \<Rightarrow> CPU \<Rightarrow> fast_byte \<times> CPU" where
  "Ins_SEC addr s = (1, SetStatusFlag CARRY True s)"

definition Ins_SED :: "address \<Rightarrow> CPU \<Rightarrow> fast_byte \<times> CPU" where
  "Ins_SED addr s = (1, SetStatusFlag DECIMAL True s)"

definition Ins_SEI :: "address \<Rightarrow> CPU \<Rightarrow> fast_byte \<times> CPU" where
  "Ins_SEI addr s = (1, SetStatusFlag INTERRUPT True s)"

definition Ins_STA :: "address \<Rightarrow> CPU \<Rightarrow> fast_byte \<times> CPU" where
  "Ins_STA addr s = (1, CPU_WriteByte addr (m_Acc s) s)"

definition Ins_STX :: "address \<Rightarrow> CPU \<Rightarrow> fast_byte \<times> CPU" where
  "Ins_STX addr s = (1, CPU_WriteByte addr (m_X s) s)"

definition Ins_STY :: "address \<Rightarrow> CPU \<Rightarrow> fast_byte \<times> CPU" where
  "Ins_STY addr s = (1, CPU_WriteByte addr (m_Y s) s)"

definition Ins_TAX :: "address \<Rightarrow> CPU \<Rightarrow> fast_byte \<times> CPU" where
  "Ins_TAX addr s =
     (let s1 = s\<lparr>m_X := m_Acc s\<rparr>;
          s2 = SetStatusFlag ZERO (m_X s1 = 0) s1;
          s3 = SetStatusFlag NEGATIVE (IS_NEGATIVE (uint (m_X s2)) \<noteq> 0) s2
      in (1, s3))"

definition Ins_TAY :: "address \<Rightarrow> CPU \<Rightarrow> fast_byte \<times> CPU" where
  "Ins_TAY addr s =
     (let s1 = s\<lparr>m_Y := m_Acc s\<rparr>;
          s2 = SetStatusFlag ZERO (m_Y s1 = 0) s1;
          s3 = SetStatusFlag NEGATIVE (IS_NEGATIVE (uint (m_Y s2)) \<noteq> 0) s2
      in (1, s3))"

definition Ins_TSX :: "address \<Rightarrow> CPU \<Rightarrow> fast_byte \<times> CPU" where
  "Ins_TSX addr s =
     (let s1 = s\<lparr>m_X := m_SP s\<rparr>;
          s2 = SetStatusFlag ZERO (m_X s1 = 0) s1;
          s3 = SetStatusFlag NEGATIVE (IS_NEGATIVE (uint (m_X s2)) \<noteq> 0) s2
      in (1, s3))"

definition Ins_TXA :: "address \<Rightarrow> CPU \<Rightarrow> fast_byte \<times> CPU" where
  "Ins_TXA addr s =
     (let s1 = s\<lparr>m_Acc := m_X s\<rparr>;
          s2 = SetStatusFlag ZERO (m_Acc s1 = 0) s1;
          s3 = SetStatusFlag NEGATIVE (IS_NEGATIVE (uint (m_Acc s2)) \<noteq> 0) s2
      in (1, s3))"

definition Ins_TXS :: "address \<Rightarrow> CPU \<Rightarrow> fast_byte \<times> CPU" where
  "Ins_TXS addr s = (1, s\<lparr>m_SP := m_X s\<rparr>)"

definition Ins_TYA :: "address \<Rightarrow> CPU \<Rightarrow> fast_byte \<times> CPU" where
  "Ins_TYA addr s =
     (let s1 = s\<lparr>m_Acc := m_Y s\<rparr>;
          s2 = SetStatusFlag ZERO (m_Acc s1 = 0) s1;
          s3 = SetStatusFlag NEGATIVE (IS_NEGATIVE (uint (m_Acc s2)) \<noteq> 0) s2
      in (1, s3))"

text \<open>
  \<^verbatim>\<open>ExecuteInstruction\<close>: the illegal instruction runs no handler and returns
  0 cycles.
\<close>

definition ExecuteInstruction :: "Instruction \<Rightarrow> address \<Rightarrow> CPU \<Rightarrow> fast_byte \<times> CPU" where
  "ExecuteInstruction instr addr s =
     (case instr of
        Instruction_ILL \<Rightarrow> (0, s)
      | Instruction_ADC \<Rightarrow> Ins_ADC addr s
      | Instruction_AND \<Rightarrow> Ins_AND addr s
      | Instruction_ASL \<Rightarrow> Ins_ASL addr s
      | Instruction_BCC \<Rightarrow> Ins_BCC addr s
      | Instruction_BCS \<Rightarrow> Ins_BCS addr s
      | Instruction_BEQ \<Rightarrow> Ins_BEQ addr s
      | Instruction_BIT \<Rightarrow> Ins_BIT addr s
      | Instruction_BMI \<Rightarrow> Ins_BMI addr s
      | Instruction_BNE \<Rightarrow> Ins_BNE addr s
      | Instruction_BPL \<Rightarrow> Ins_BPL addr s
      | Instruction_BRK \<Rightarrow> Ins_BRK addr s
      | Instruction_BVC \<Rightarrow> Ins_BVC addr s
      | Instruction_BVS \<Rightarrow> Ins_BVS addr s
      | Instruction_CLC \<Rightarrow> Ins_CLC addr s
      | Instruction_CLD \<Rightarrow> Ins_CLD addr s
      | Instruction_CLI \<Rightarrow> Ins_CLI addr s
      | Instruction_CLV \<Rightarrow> Ins_CLV addr s
      | Instruction_CMP \<Rightarrow> Ins_CMP addr s
      | Instruction_CPX \<Rightarrow> Ins_CPX addr s
      | Instruction_CPY \<Rightarrow> Ins_CPY addr s
      | Instruction_DEC \<Rightarrow> Ins_DEC addr s
      | Instruction_DEX \<Rightarrow> Ins_DEX addr s
      | Instruction_DEY \<Rightarrow> Ins_DEY addr s
      | Instruction_EOR \<Rightarrow> Ins_EOR addr s
      | Instruction_INC \<Rightarrow> Ins_INC addr s
      | Instruction_INX \<Rightarrow> Ins_INX addr s
      | Instruction_INY \<Rightarrow> Ins_INY addr s
      | Instruction_JMP \<Rightarrow> Ins_JMP addr s
      | Instruction_JSR \<Rightarrow> Ins_JSR addr s
      | Instruction_LDA \<Rightarrow> Ins_LDA addr s
      | Instruction_LDX \<Rightarrow> Ins_LDX addr s
      | Instruction_LDY \<Rightarrow> Ins_LDY addr s
      | Instruction_LSR \<Rightarrow> Ins_LSR addr s
      | Instruction_NOP \<Rightarrow> Ins_NOP addr s
      | Instruction_ORA \<Rightarrow> Ins_ORA addr s
      | Instruction_PHA \<Rightarrow> Ins_PHA addr s
      | Instruction_PHP \<Rightarrow> Ins_PHP addr s
      | Instruction_PLA \<Rightarrow> Ins_PLA addr s
      | Instruction_PLP \<Rightarrow> Ins_PLP addr s
      | Instruction_ROL \<Rightarrow> Ins_ROL addr s
      | Instruction_ROR \<Rightarrow> Ins_ROR addr s
      | Instruction_RTI \<Rightarrow> Ins_RTI addr s
      | Instruction_RTS \<Rightarrow> Ins_RTS addr s
      | Instruction_SBC \<Rightarrow> Ins_SBC addr s
      | Instruction_SEC \<Rightarrow> Ins_SEC addr s
      | Instruction_SED \<Rightarrow> Ins_SED addr s
      | Instruction_SEI \<Rightarrow> Ins_SEI addr s
      | Instruction_STA \<Rightarrow> Ins_STA addr s
      | Instruction_STX \<Rightarrow> Ins_STX addr s
      | Instruction_STY \<Rightarrow> Ins_STY addr s
      | Instruction_TAX \<Rightarrow> Ins_TAX addr s
      | Instruction_TAY \<Rightarrow> Ins_TAY addr s
      | Instruction_TSX \<Rightarrow> Ins_TSX addr s
      | Instruction_TXA \<Rightarrow> Ins_TXA addr s
      | Instruction_TXS \<Rightarrow> Ins_TXS addr s
      | Instruction_TYA \<Rightarrow> Ins_TYA addr s)"

subsection \<open>Reset, interrupts and the clock (cpu.cpp)\<close>

definition Reset :: "CPU \<Rightarrow> CPU" where
  "Reset s =
     (let s1 = s\<lparr>m_Acc := 0, m_X := 0, m_Y := 0\<rparr>;
          s2 = s1\<lparr>m_PC := CPU_ReadWord s1 ADDRESS_RESET_VECTOR\<rparr>;
          s3 = s2\<lparr>m_SP := 0xFD\<rparr>
      in s3\<lparr>m_ProcStatus := 0 OR flag_value UNUSED\<rparr>)"

definition IRQ :: "CPU \<Rightarrow> CPU" where
  "IRQ s =
     (if HasStatusFlag s INTERRUPT = True then s
      else
        (let s1 = PushToStack (word_of_int (GET_HIGH_BYTE (uint (m_PC s)))) s;
             s2 = PushToStack (word_of_int (GET_LOW_BYTE (uint (m_PC s1)))) s1;
             s3 = SetStatusFlag BREAK False s2;
             s4 = SetStatusFlag INTERRUPT True s3;
             s5 = SetStatusFlag UNUSED True s4;
             s6 = PushToStack (m_ProcStatus s5) s5;
             s7 = s6\<lparr>m_PC := CPU_ReadWord s6 ADDRESS_IRQ_VECTOR\<rparr>
         in s7\<lparr>m_CyclesRem := m_CyclesRem s7 + 7\<rparr>))"

definition NMI :: "CPU \<Rightarrow> CPU" where
  "NMI s =
     (let s1 = PushToStack (word_of_int (GET_HIGH_BYTE (uint (m_PC s)))) s;
          s2 = PushToStack (word_of_int (GET_LOW_BYTE (uint (m_PC s1)))) s1;
          s3 = SetStatusFlag BREAK False s2;
          s4 = SetStatusFlag INTERRUPT True s3;
          s5 = SetStatusFlag UNUSED True s4;
          s6 = PushToStack (m_ProcStatus s5) s5;
          s7 = s6\<lparr>m_PC := CPU_ReadWord s6 ADDRESS_NMI_VECTOR\<rparr>
      in s7\<lparr>m_CyclesRem := m_CyclesRem s7 + 8\<rparr>)"

text \<open>
  \<^verbatim>\<open>Tick\<close> returns whether cycles remain, next to the updated CPU.  The
  lookup \<^verbatim>\<open>InstructionDetails[opcode]\<close> is the one place where it can leave
  defined behaviour; the model returns the error then.
\<close>

definition Tick :: "CPU \<Rightarrow> error + (bool \<times> CPU)" where
  "Tick s =
     (let s0 = s\<lparr>m_CyclesExecuted := m_CyclesExecuted s + 1\<rparr> in
      if m_CyclesRem s0 > 0 then
        (let s1 = s0\<lparr>m_CyclesRem := m_CyclesRem s0 - 1\<rparr>
         in Inr (m_CyclesRem s1 > 0, s1))
      else
        (let opcode = CPU_ReadByte s0 (m_PC s0);
             s1 = s0\<lparr>m_PC := m_PC s0 + 1\<rparr>
         in case InstructionDetails_at opcode of
              Inl e \<Rightarrow> Inl e
            | Inr detail \<Rightarrow>
                (let (addr, countAddressing, s2) = ExecuteAddressing (addressing detail) 0 s1;
                     (countInstruction, s3) = ExecuteInstruction (instruction detail) addr s2;
                     s4 = s3\<lparr>m_CyclesRem := m_CyclesRem s3 + (countAddressing + countInstruction)\<rparr>;
                     s5 = SetStatusFlag UNUSED True s4
                 in Inr (m_CyclesRem s5 > 0, s5))))"

section \<open>The assembler: emitting one instruction (program.h, program.cpp)\<close>

text \<open>
  \<^verbatim>\<open>struct Program::Line\<close>, with the fields in the order of the aggregate
  initialiser, and the members of \<^verbatim>\<open>Program\<close> that compilation writes.
\<close>

datatype Line = Line
  (Line_lineNumber: nat)
  (Line_pcOffset: int)
  (Line_raw: string)
  (Line_comment: string)
  (Line_opCode: byte)
  (Line_instruction: Instruction)
  (Line_addressing: AddressMode)
  (Line_value: word16)

record Program =
  m_StartingPCOffset :: word16
  m_SourceCode :: "Line list"
  m_ByteCode :: "byte list"

definition Program_Make :: Program where
  "Program_Make = \<lparr>m_StartingPCOffset = 0x0200, m_SourceCode = [], m_ByteCode = []\<rparr>"

text \<open>
  The local variable \<^verbatim>\<open>startingPCOffset\<close> of \<^verbatim>\<open>CompileString\<close>: it is
  initialised to 0x0200 and never assigned again (the location of the first
  instruction goes to the member \<^verbatim>\<open>m_StartingPCOffset\<close>).
\<close>

definition startingPCOffset :: word16 where
  "startingPCOffset = 0x0200"

text \<open>
  The block ``Branching optimization'' of the lambda \<^verbatim>\<open>parseInstruction\<close>.
  Its inputs are the decoded mnemonic, the location \<^verbatim>\<open>instrPC\<close> of the
  instruction, and the addressing mode and operand value that the operand
  text was parsed to; it returns the addressing mode and the value after the
  block.  \<^verbatim>\<open>rel\<close> is a byte and \<^verbatim>\<open>value\<close> a 16-bit word.
\<close>

definition branching_optimization ::
  "Instruction \<Rightarrow> word16 \<Rightarrow> AddressMode \<Rightarrow> word16 \<Rightarrow> AddressMode \<times> word16" where
  "branching_optimization inst instrPC addr val =
     (if inst = Instruction_BCC \<or> inst = Instruction_BCS \<or> inst = Instruction_BEQ
         \<or> inst = Instruction_BMI \<or> inst = Instruction_BNE \<or> inst = Instruction_BPL
         \<or> inst = Instruction_BVC \<or> inst = Instruction_BVS
      then
        (let diff = uint startingPCOffset - uint instrPC in
         if diff \<ge> -126 \<and> diff \<le> 129 then
           (let rel = (word_of_int (if diff < 0 then (256 + diff) AND 0xFF else diff AND 0x7F) :: byte)
            in (AddressMode_REL, word_of_int (uint rel - 2)))
         else (addr, val))
      else (addr, val))"

text \<open>
  The rest of \<^verbatim>\<open>parseInstruction\<close> from that block on: the table lookup, the
  listing line and the byte code.
\<close>

definition parseInstruction_emit ::
  "nat \<Rightarrow> Instruction \<Rightarrow> word16 \<Rightarrow> AddressMode \<Rightarrow> word16 \<Rightarrow> Program \<Rightarrow> Program" where
  "parseInstruction_emit lineNumber inst instrPC addr val p =
     (let (addr', val') = branching_optimization inst instrPC addr val;
          instrDetail = FindInstructionDetail inst addr'
      in if instruction instrDetail \<noteq> Instruction_ILL then
           p\<lparr>m_SourceCode := m_SourceCode p @
                [Line lineNumber (uint instrPC) [] [] (opCode instrDetail)
                   (instruction instrDetail) (addressing instrDetail) val'],
             m_ByteCode := m_ByteCode p @ [opCode instrDetail] @
                (if addressing instrDetail \<noteq> AddressMode_IMP \<and> addressing instrDetail \<noteq> AddressMode_ACC
                 then [word_of_int (GET_LOW_BYTE (uint val'))] @
                      (if GET_HIGH_BYTE (uint val') \<noteq> 0
                       then [word_of_int (GET_HIGH_BYTE (uint val'))] else [])
                 else [])\<rparr>
         else p)"

section \<open>The shell's set-up and clock (main.cpp)\<close>

text \<open>
  \<^verbatim>\<open>main\<close> makes a memory of the default size, writes the program bytes and
  the reset vector into it, connects a bus and a CPU and resets the CPU.
  \<open>Memory_with\<close> fills such a memory byte by byte with
  \<^verbatim>\<open>Memory::WriteByte\<close>, in the order of the list, and \<open>boot\<close> is the CPU
  after that reset.  \<open>Ticks n\<close> is the shell running \<open>n\<close> single ticks,
  stopping at a tick that leaves defined behaviour.
\<close>

definition Memory_with :: "(address \<times> byte) list \<Rightarrow> Memory" where
  "Memory_with ws = foldl (\<lambda>m (a, b). Memory_WriteByte m a b) (Memory_Make (MAKE_KB 64)) ws"

definition boot :: "(address \<times> byte) list \<Rightarrow> CPU" where
  "boot ws = Reset (CPU_Make (Some \<lparr>m_Memory = Some (Memory_with ws)\<rparr>))"

text \<open>
  A booted CPU whose accumulator and processor status have been loaded, as a
  program does with \<^verbatim>\<open>LDA\<close> and the flag instructions before the
  instruction under study.
\<close>

definition cpu_with :: "byte \<Rightarrow> byte \<Rightarrow> (address \<times> byte) list \<Rightarrow> CPU" where
  "cpu_with a p ws = (boot ws)\<lparr>m_Acc := a, m_ProcStatus := p\<rparr>"

primrec Ticks :: "nat \<Rightarrow> CPU \<Rightarrow> error + CPU" where
  "Ticks 0 s = Inr s"
| "Ticks (Suc n) s = (case Tick s of Inl e \<Rightarrow> Inl e | Inr (busy, s') \<Rightarrow> Ticks n s')"

text \<open>
  The position of each flag in the processor status, counted from the least
  significant bit: C, Z, I, D, B, U, V, N.
\<close>

fun flag_index :: "StatusFlag \<Rightarrow> nat" where
  "flag_index CARRY = 0"
| "flag_index ZERO = 1"
| "flag_index INTERRUPT = 2"
| "flag_index DECIMAL = 3"
| "flag_index BREAK = 4"
| "flag_index UNUSED = 5"
| "flag_index INT_OVERFLOW = 6"
| "flag_index NEGATIVE = 7"

section \<open>Reachable CPU states\<close>

text \<open>
  The states a caller can bring a CPU to: a reset of any CPU, followed by any
  sequence of \<^verbatim>\<open>Tick\<close>, \<^verbatim>\<open>IRQ\<close> and \<^verbatim>\<open>NMI\<close> calls.  A tick counts when it
  stays inside defined behaviour.
\<close>

inductive reachable :: "CPU \<Rightarrow> bool" where
  reach_Reset: "reachable (Reset s)"
| reach_Tick: "reachable s \<Longrightarrow> Tick s = Inr (busy, s') \<Longrightarrow> reachable s'"
| reach_IRQ: "reachable s \<Longrightarrow> reachable (IRQ s)"
| reach_NMI: "reachable s \<Longrightarrow> reachable (NMI s)"

section \<open>Auxiliary facts\<close>

subsection \<open>Evaluation\<close>

lemma Ticks_numeral:
  "Ticks (numeral k) s =
     (case Tick s of Inl e \<Rightarrow> Inl e | Inr (busy, s') \<Rightarrow> Ticks (pred_numeral k) s')"
  by (simp add: numeral_eq_Suc)

lemma InstructionDetails_length: "length InstructionDetails = 255"
  by (simp add: InstructionDetails_def)

lemmas macro_defs = address_of_def page_def record_of_def MAKE_KB_def KB_def MAKE_WORD_def
  GET_HIGH_BYTE_def GET_LOW_BYTE_def IS_NEGATIVE_def ADDRESS_STACK_def ADDRESS_NMI_VECTOR_def
  ADDRESS_RESET_VECTOR_def ADDRESS_IRQ_VECTOR_def

lemmas io_defs = Memory_Make_def Memory_ReadByte_def Memory_ReadWord_def Memory_WriteByte_def
  Bus_ReadByte_def Bus_ReadWord_def Bus_WriteByte_def CPU_ReadByte_def CPU_ReadWord_def
  CPU_WriteByte_def FetchData_def PushToStack_def PullFromStack_def

lemmas cpu_defs = CPU_Make_def GetStatusFlag_def HasStatusFlag_def SetStatusFlag_def
  ClearSupplied_def SetSupplied_def Reset_def Tick_def Memory_with_def boot_def
  ExecuteAddressing_def ExecuteInstruction_def InstructionDetails_at_def InstructionDetails_length
  Let_def

lemma InstructionDetails_rows:
  "InstructionDetails ! 0x06 = InstructionDetail 0x06 Instruction_ASL AddressMode_ZPG 2 5 False"
  "InstructionDetails ! 0x18 = InstructionDetail 0x18 Instruction_CLC AddressMode_IMP 1 2 False"
  "InstructionDetails ! 0x38 = InstructionDetail 0x38 Instruction_SEC AddressMode_IMP 1 2 False"
  "InstructionDetails ! 0x46 = InstructionDetail 0x46 Instruction_LSR AddressMode_ZPG 2 5 False"
  "InstructionDetails ! 0x6A = InstructionDetail 0x6A Instruction_ROR AddressMode_ACC 1 2 False"
  "InstructionDetails ! 0xA1 = InstructionDetail 0xA1 Instruction_LDA AddressMode_INX 2 6 False"
  "InstructionDetails ! 0xA2 = InstructionDetail 0xA2 Instruction_LDX AddressMode_IMM 2 2 False"
  "InstructionDetails ! 0xA9 = InstructionDetail 0xA9 Instruction_LDA AddressMode_IMM 2 2 False"
  "InstructionDetails ! 0xD0 = InstructionDetail 0xD0 Instruction_BNE AddressMode_REL 2 2 True"
  "InstructionDetails ! 0xE9 = InstructionDetail 0xE9 Instruction_SBC AddressMode_IMM 2 2 False"
  "InstructionDetails ! 0xF0 = InstructionDetail 0xF0 Instruction_BEQ AddressMode_REL 2 2 True"
  "InstructionDetails ! 0xF8 = InstructionDetail 0xF8 Instruction_SED AddressMode_IMP 1 2 False"
  by (simp_all add: InstructionDetails_def)

lemmas cpu_eval = macro_defs io_defs cpu_defs InstructionDetails_rows

subsection \<open>Status flags\<close>

lemma flag_value_exp: "flag_value f = 2 ^ flag_index f"
  by (cases f) simp_all

lemma HasStatusFlag_bit: "HasStatusFlag s f = bit (m_ProcStatus s) (flag_index f)"
  unfolding HasStatusFlag_def flag_value_exp by (simp add: and_exp_eq_0_iff_not_bit)

lemma flag_index_inj: "flag_index f = flag_index g \<longleftrightarrow> f = g"
  by (cases f; cases g) simp_all

lemma flag_index_lt: "flag_index f < 8"
  by (cases f) simp_all

lemma HasStatusFlag_SetStatusFlag:
  "HasStatusFlag (SetStatusFlag f v s) g = (if g = f then v else HasStatusFlag s g)"
  unfolding HasStatusFlag_bit SetStatusFlag_def flag_value_exp
  using flag_index_lt[of g] flag_index_lt[of f]
  by (auto simp add: bit_simps flag_index_inj)

lemma SetStatusFlag_fields [simp]:
  "m_Acc (SetStatusFlag f v s) = m_Acc s"
  "m_Bus (SetStatusFlag f v s) = m_Bus s"
  "m_PC (SetStatusFlag f v s) = m_PC s"
  "m_WasSupplied (SetStatusFlag f v s) = m_WasSupplied s"
  by (simp_all add: SetStatusFlag_def)

lemma HasStatusFlag_upd [simp]:
  "HasStatusFlag (s\<lparr>m_Acc := a\<rparr>) f = HasStatusFlag s f"
  "HasStatusFlag (s\<lparr>m_PC := pc\<rparr>) f = HasStatusFlag s f"
  "HasStatusFlag (s\<lparr>m_SP := sp\<rparr>) f = HasStatusFlag s f"
  "HasStatusFlag (s\<lparr>m_CyclesRem := c\<rparr>) f = HasStatusFlag s f"
  "HasStatusFlag (s\<lparr>m_CyclesExecuted := e\<rparr>) f = HasStatusFlag s f"
  "HasStatusFlag (s\<lparr>m_Bus := b\<rparr>) f = HasStatusFlag s f"
  by (simp_all add: HasStatusFlag_def)

lemma HasStatusFlag_PushToStack [simp]:
  "HasStatusFlag (PushToStack d s) f = HasStatusFlag s f"
  by (simp add: PushToStack_def CPU_WriteByte_def Let_def split: option.splits)

lemma Reset_UNUSED: "HasStatusFlag (Reset s) UNUSED"
  by (simp add: Reset_def HasStatusFlag_def Let_def)

lemma IRQ_UNUSED: "HasStatusFlag s UNUSED \<Longrightarrow> HasStatusFlag (IRQ s) UNUSED"
  by (simp add: IRQ_def Let_def HasStatusFlag_SetStatusFlag)

lemma NMI_UNUSED: "HasStatusFlag (NMI s) UNUSED"
  by (simp add: NMI_def Let_def HasStatusFlag_SetStatusFlag)

lemma Tick_UNUSED:
  "Tick s = Inr (busy, s') \<Longrightarrow> HasStatusFlag s UNUSED \<Longrightarrow> HasStatusFlag s' UNUSED"
  by (auto simp add: Tick_def Let_def HasStatusFlag_SetStatusFlag
      split: if_splits sum.splits prod.splits)

subsection \<open>Bit arithmetic\<close>

lemma and_FF_mod: "(x::int) AND 0xFF = x mod 256"
  using take_bit_eq_mask[of 8 x] by (simp add: take_bit_eq_mod mask_numeral)

lemma not_byte_xor: "NOT (M::8 word) = M XOR 0xFF"
proof -
  have "(0xFF :: 8 word) = - 1" by simp
  then show ?thesis by (simp only: bit.xor_one_right)
qed

lemma uint_xor_FF: "uint (M::8 word) XOR 0xFF = uint (NOT M)"
  by (simp add: not_byte_xor uint_xor)

lemma and_FF00_lo: "0 \<le> S \<Longrightarrow> S < 256 \<Longrightarrow> (S::int) AND 0xFF00 = 0"
proof -
  assume "0 \<le> S" "S < 256"
  then have "take_bit 8 S = S" by (simp add: take_bit_int_eq_self)
  then have "S = S AND 255" by (simp add: take_bit_eq_mask mask_numeral)
  then have "S AND 0xFF00 = (S AND 255) AND 0xFF00" by simp
  also have "\<dots> = S AND (255 AND 0xFF00)" by (simp only: and.assoc)
  also have "\<dots> = 0" by simp
  finally show ?thesis .
qed

lemma and_FF00_hi: "256 \<le> S \<Longrightarrow> S < 512 \<Longrightarrow> (S::int) AND 0xFF00 \<noteq> 0"
proof -
  assume h: "256 \<le> S" "S < 512"
  then have "S div 256 = 1" by simp
  then have "bit S 8" by (simp add: bit_iff_odd_drop_bit drop_bit_eq_div)
  moreover have "bit (0xFF00 :: int) 8" by simp
  ultimately have "bit (S AND 0xFF00) 8" by (simp only: bit_and_iff)
  then show ?thesis by auto
qed

lemma and_FF00_iff: "0 \<le> S \<Longrightarrow> S < 512 \<Longrightarrow> ((S::int) AND 0xFF00 = 0) = (S < 256)"
  using and_FF00_lo[of S] and_FF00_hi[of S] by (cases "S < 256") auto

lemma uint_ucast_byte: "uint (ucast (b :: byte) :: word16) = uint b"
  by (simp add: uint_up_ucast is_up)

lemma Ins_ASL_bus: "m_Bus (snd (Ins_ASL addr s)) = m_Bus s"
  by (simp add: Ins_ASL_def Let_def)

lemma Ins_LSR_bus: "m_Bus (snd (Ins_LSR addr s)) = m_Bus s"
  by (simp add: Ins_LSR_def Let_def)

subsection \<open>General behaviour of the handlers studied below\<close>

text \<open>Every row of the table carries its own index as opcode.\<close>

lemma InstructionDetails_keyed: "map (unat \<circ> opCode) InstructionDetails = [0..<255]"
proof -
  have "[0..<255] = 0 # 1 # [2..<255]" by (simp add: upt_rec)
  then show ?thesis by (simp add: InstructionDetails_def)
qed

text \<open>
  The carry shifted left by 8 does not reach the byte result of \<^verbatim>\<open>Ins_ROR\<close>:
  in accumulator mode the new accumulator is the plain right shift, whatever
  the carry was.
\<close>

lemma ror_result:
  "(word_of_int ((drop_bit 1 (uint v)) OR (push_bit 8 (uint (c :: byte)))) :: byte) = drop_bit 1 (v :: byte)"
  by (auto simp add: bit_eq_iff bit_simps dest: bit_imp_le_length)

lemma Ins_ROR_ignores_carry:
  "m_WasSupplied s \<Longrightarrow> m_Acc (snd (Ins_ROR addr s)) = drop_bit 1 (m_SuppliedValue s)"
  unfolding Ins_ROR_def Let_def FetchData_def ror_result
  by simp

text \<open>
  \<^verbatim>\<open>Branch\<close> returns 2 only when both the old and the new program counter are
  on page 0, and 3 otherwise.
\<close>

lemma FF00_mask: "(0xFF00::int) = push_bit 8 (mask 8)"
  by (simp add: mask_numeral)

lemma and_FF00_page: "uint (p :: word16) AND 0xFF00 = push_bit 8 (uint (page p))"
  unfolding FF00_mask
  by (auto simp add: page_def bit_eq_iff bit_simps dest: bit_imp_le_length)

lemma Branch_cycles:
  "fst (Branch addr s) =
     (if page (address_of (uint (m_PC s) + uint addr)) = 0 \<and> page (m_PC s) = 0 then 2 else 3)"
proof -
  have "uint (page q) = push_bit 8 (uint (page p)) \<longleftrightarrow> page q = 0 \<and> page p = 0" for p q :: word16
  proof
    assume e: "uint (page q) = push_bit 8 (uint (page p))"
    have "uint (page q) < 256" using uint_bounded[of "page q"] by simp
    with e have "uint (page p) < 1"
      by (simp add: push_bit_eq_mult)
    then have "uint (page p) = 0"
      using uint_nonnegative[of "page p"] by linarith
    with e show "page q = 0 \<and> page p = 0" by (simp add: unsigned_eq_0_iff)
  next
    assume "page q = 0 \<and> page p = 0"
    then show "uint (page q) = push_bit 8 (uint (page p))" by simp
  qed
  then show ?thesis
    by (simp add: Branch_def Let_def and_FF00_page)
qed

subsection \<open>Table searches of the assembler\<close>

lemma find_BNE_REL:
  "FindInstructionDetail Instruction_BNE AddressMode_REL =
     InstructionDetail 0xD0 Instruction_BNE AddressMode_REL 2 2 True"
  by (simp add: FindInstructionDetail_def InstructionDetails_def)

lemma find_BNE_ABS:
  "FindInstructionDetail Instruction_BNE AddressMode_ABS =
     InstructionDetail 0x02 Instruction_ILL AddressMode_ILL 1 2 False"
  by (simp add: FindInstructionDetail_def InstructionDetails_def)

section \<open>The opcode table\<close>

text \<open>
  C1.  The claim: the opcode table has exactly 256 rows, one for every opcode
  byte 0x00 to 0xFF, so that every fetched opcode byte has a table entry.
  The table of the source has 255 rows (\<^verbatim>\<open>MAX_INSTRUCTIONS = 255\<close>), for the
  opcodes 0x00 to 0xFE; the opcode 0xFF has no row, and a tick that fetches
  it indexes the array out of bounds.
\<close>

theorem InstructionDetails_misses_opcode_FF:
  "length InstructionDetails = 255 \<and> unat MAX_INSTRUCTIONS = 255
   \<and> InstructionDetails_at 0xFE = Inr (InstructionDetail 0xFE Instruction_INC AddressMode_ABX 3 7 False)
   \<and> InstructionDetails_at 0xFF = Inl IndexOutOfBounds
   \<and> Tick (boot [(0xFFFC, 0x00), (0xFFFD, 0x02), (0x0200, 0xFF)]) = Inl IndexOutOfBounds"
  by (simp add: MAX_INSTRUCTIONS_def macro_defs io_defs cpu_defs) (simp add: InstructionDetails_def)

section \<open>Shifts and rotates\<close>

text \<open>
  C2.  The claim: ASL and LSR with a memory addressing mode write the shifted
  byte back to the effective address and leave the accumulator unchanged.
  In the source both handlers assign the result to the accumulator and never
  write memory: after \<^verbatim>\<open>ASL $10\<close> and after \<^verbatim>\<open>LSR $10\<close> on a cell holding
  0x41, the cell still holds 0x41 and the accumulator, 0 before, holds the
  shifted byte.
\<close>

theorem ASL_LSR_memory_result_goes_to_accumulator:
  "m_Acc (boot [(0xFFFC, 0x00), (0xFFFD, 0x02), (0x0200, 0x06), (0x0201, 0x10), (0x0010, 0x41)]) = 0
   \<and> (case Tick (boot [(0xFFFC, 0x00), (0xFFFD, 0x02), (0x0200, 0x06), (0x0201, 0x10), (0x0010, 0x41)]) of
        Inr (busy, s) \<Rightarrow> m_Acc s = 0x82 \<and> CPU_ReadByte s 0x0010 = 0x41
      | Inl e \<Rightarrow> False)
   \<and> (case Tick (boot [(0xFFFC, 0x00), (0xFFFD, 0x02), (0x0200, 0x46), (0x0201, 0x10), (0x0010, 0x41)]) of
        Inr (busy, s) \<Rightarrow> m_Acc s = 0x20 \<and> CPU_ReadByte s 0x0010 = 0x41
      | Inl e \<Rightarrow> False)"
  by (simp add: cpu_eval Addr_ZPG_def Ins_ASL_def Ins_LSR_def)

text \<open>
  C6.  The claim: ROR shifts the operand right by one and places the old
  carry into bit 7.  The source shifts the carry left by 8, which the byte
  result drops: \<^verbatim>\<open>SEC; LDA #$02; ROR A\<close> leaves 0x01 in the accumulator,
  not 0x81.
\<close>

theorem ROR_drops_carry_in:
  "case Ticks 7 (boot [(0xFFFC, 0x00), (0xFFFD, 0x02),
       (0x0200, 0x38), (0x0201, 0xA9), (0x0202, 0x02), (0x0203, 0x6A)]) of
     Inr s \<Rightarrow> m_Acc s = 0x01 \<and> m_PC s = 0x0204
   | Inl e \<Rightarrow> False"
  by (simp add: Ticks_numeral cpu_eval Addr_IMP_def Addr_IMM_def Addr_ACC_def
      Ins_SEC_def Ins_LDA_def Ins_ROR_def)

section \<open>Subtract with carry\<close>

text \<open>
  The first two scenarios of the repository's test program, binary mode:
  \<^verbatim>\<open>CLD; CLC; LDA #$32; SBC #$11\<close> gives A = 0x20 with C = 0, and
  \<^verbatim>\<open>CLD; CLC; LDA #0; SBC #1\<close> gives A = 0xFF with C = 0, as the comments of
  the test program say.  (After a reset D and C are clear.)
\<close>

lemma scenario_1_end_to_end:
  "case Ticks 4 (boot [(0xFFFC, 0x00), (0xFFFD, 0x02),
       (0x0200, 0xA9), (0x0201, 0x32), (0x0202, 0xE9), (0x0203, 0x11)]) of
     Inr s \<Rightarrow> m_Acc s = 0x20 \<and> \<not> HasStatusFlag s CARRY
   | Inl e \<Rightarrow> False"
  by (simp add: Ticks_numeral cpu_eval Addr_IMM_def Ins_LDA_def Ins_SBC_def)

lemma scenario_2_end_to_end:
  "case Ticks 4 (boot [(0xFFFC, 0x00), (0xFFFD, 0x02),
       (0x0200, 0xA9), (0x0201, 0x00), (0x0202, 0xE9), (0x0203, 0x01)]) of
     Inr s \<Rightarrow> m_Acc s = 0xFF \<and> \<not> HasStatusFlag s CARRY
   | Inl e \<Rightarrow> False"
  by (simp add: Ticks_numeral cpu_eval Addr_IMM_def Ins_LDA_def Ins_SBC_def)

text \<open>
  C3, as claimed: with D clear, SBC writes the low byte of the 16-bit sum
  A + (~M) + C to A and sets C to bit 8 of that sum.  This fails for A = 0x32,
  M = 0x11 and C = 0: the sum is 0x120, whose bit 8 is set, and the source
  leaves C clear.
\<close>

theorem SBC_binary_not_plain_sum:
  "\<not> (m_Acc (snd (Ins_SBC 0x0010 (cpu_with 0x32 0x20 [(0x0010, 0x11)])))
        = ucast (0x32 + ucast (NOT (0x11 :: byte)) + 0 :: word16)
      \<and> HasStatusFlag (snd (Ins_SBC 0x0010 (cpu_with 0x32 0x20 [(0x0010, 0x11)]))) CARRY
        = bit (0x32 + ucast (NOT (0x11 :: byte)) + 0 :: word16) 8)"
  by (simp add: cpu_with_def cpu_eval Ins_SBC_def)

text \<open>
  C3, amended: with D clear, SBC computes S = A + (~M) + C; when S has no bit
  above bit 7 (S < 256) it adds 1 to it; it writes the low byte of the
  adjusted sum R to A, and sets C exactly when R is below 0xFF.
\<close>

theorem SBC_binary_adjusted_sum:
  "\<not> HasStatusFlag s DECIMAL \<Longrightarrow>
   (let S = uint (m_Acc s) + uint (NOT (FetchData s addr)) + uint (GetStatusFlag s CARRY);
        R = (if S < 256 then S + 1 else S)
    in uint (m_Acc (snd (Ins_SBC addr s))) = R mod 256
       \<and> HasStatusFlag (snd (Ins_SBC addr s)) CARRY = (R < 255))"
proof -
  assume nd: "\<not> HasStatusFlag s DECIMAL"
  define S where "S = uint (m_Acc s) + uint (NOT (FetchData s addr)) + uint (GetStatusFlag s CARRY)"
  define W where "W = (word_of_int S :: 16 word)"
  have c: "0 \<le> uint (GetStatusFlag s CARRY)" "uint (GetStatusFlag s CARRY) \<le> 1"
    by (simp_all add: GetStatusFlag_def)
  have b: "0 \<le> S" "S < 512"
    using uint_bounded[of "m_Acc s"] uint_bounded[of "NOT (FetchData s addr)"] c
    by (simp_all add: S_def)
  have r0: "uint W = S"
    using b by (simp add: W_def uint_word_of_int)
  have r1: "uint (W + 1) = S + 1"
    using b by (simp add: W_def uint_word_ariths uint_word_of_int)
  have sum: "uint (ucast (m_Acc s) :: 16 word) + (uint (ucast (FetchData s addr) :: 16 word) XOR 0xFF)
      + uint (ucast (GetStatusFlag s CARRY) :: 16 word) = S"
    by (simp add: S_def uint_xor_FF uint_ucast_byte)
  have res0: "(word_of_int (uint (ucast (m_Acc s) :: 16 word)
      + (uint (ucast (FetchData s addr) :: 16 word) XOR 0xFF)
      + uint (ucast (GetStatusFlag s CARRY) :: 16 word)) :: 16 word) = W"
    by (simp only: sum W_def)
  have body: "uint (m_Acc (snd (Ins_SBC addr s))) = (if S < 256 then S + 1 else S) mod 256
       \<and> HasStatusFlag (snd (Ins_SBC addr s)) CARRY = ((if S < 256 then S + 1 else S) < 255)"
    unfolding Ins_SBC_def Let_def res0
    using nd b
    by (simp add: r0 r1 and_FF00_iff GET_LOW_BYTE_def and_FF_mod
        HasStatusFlag_SetStatusFlag uint_word_of_int)
  then show ?thesis
    unfolding S_def Let_def .
qed

theorem SBC_binary_adjusted_sum_witness:
  "\<not> HasStatusFlag (cpu_with 0x00 0x20 [(0x0010, 0x01)]) DECIMAL
   \<and> uint (m_Acc (snd (Ins_SBC 0x0010 (cpu_with 0x00 0x20 [(0x0010, 0x01)])))) = 0xFF
   \<and> \<not> HasStatusFlag (snd (Ins_SBC 0x0010 (cpu_with 0x00 0x20 [(0x0010, 0x01)]))) CARRY"
proof -
  have d: "\<not> HasStatusFlag (cpu_with 0x00 0x20 [(0x0010, 0x01)]) DECIMAL"
    by (simp add: cpu_with_def HasStatusFlag_def)
  have v: "m_Acc (cpu_with 0x00 0x20 [(0x0010, 0x01)]) = 0"
    "FetchData (cpu_with 0x00 0x20 [(0x0010, 0x01)]) 0x0010 = 0x01"
    "GetStatusFlag (cpu_with 0x00 0x20 [(0x0010, 0x01)]) CARRY = 0"
    by (simp_all add: cpu_with_def cpu_eval)
  show ?thesis
    using d SBC_binary_adjusted_sum [OF d, of "0x0010"]
    by (simp add: v Let_def)
qed

text \<open>
  C4.  SBC in decimal mode with A = 0x21, operand 0x34, D set and C clear
  leaves A = 0x87 and C clear.
\<close>

theorem SBC_decimal_21_minus_34:
  "HasStatusFlag s DECIMAL \<Longrightarrow> \<not> HasStatusFlag s CARRY \<Longrightarrow> m_Acc s = 0x21 \<Longrightarrow>
   FetchData s addr = 0x34 \<Longrightarrow>
   m_Acc (snd (Ins_SBC addr s)) = 0x87 \<and> \<not> HasStatusFlag (snd (Ins_SBC addr s)) CARRY"
  by (simp add: Ins_SBC_def Let_def c_div_def GET_LOW_BYTE_def IS_NEGATIVE_def
      HasStatusFlag_SetStatusFlag)

theorem SBC_decimal_21_minus_34_witness:
  "HasStatusFlag (cpu_with 0x21 0x28 [(0x0010, 0x34)]) DECIMAL
   \<and> \<not> HasStatusFlag (cpu_with 0x21 0x28 [(0x0010, 0x34)]) CARRY
   \<and> m_Acc (cpu_with 0x21 0x28 [(0x0010, 0x34)]) = 0x21
   \<and> FetchData (cpu_with 0x21 0x28 [(0x0010, 0x34)]) 0x0010 = 0x34
   \<and> m_Acc (snd (Ins_SBC 0x0010 (cpu_with 0x21 0x28 [(0x0010, 0x34)]))) = 0x87
   \<and> \<not> HasStatusFlag (snd (Ins_SBC 0x0010 (cpu_with 0x21 0x28 [(0x0010, 0x34)]))) CARRY"
proof -
  have h: "HasStatusFlag (cpu_with 0x21 0x28 [(0x0010, 0x34)]) DECIMAL"
    "\<not> HasStatusFlag (cpu_with 0x21 0x28 [(0x0010, 0x34)]) CARRY"
    "m_Acc (cpu_with 0x21 0x28 [(0x0010, 0x34)]) = 0x21"
    "FetchData (cpu_with 0x21 0x28 [(0x0010, 0x34)]) 0x0010 = 0x34"
    by (simp_all add: cpu_with_def cpu_eval)
  show ?thesis
    using h SBC_decimal_21_minus_34 [OF h] by simp
qed

text \<open>
  The whole of scenario 5, from the reset on:
  \<^verbatim>\<open>SED; CLC; LDA #$21; SBC #$34\<close> takes ten ticks and ends with A = 0x87
  and C clear.
\<close>

lemma scenario_5_end_to_end:
  "case Ticks 10 (boot [(0xFFFC, 0x00), (0xFFFD, 0x02), (0x0200, 0xF8), (0x0201, 0x18),
       (0x0202, 0xA9), (0x0203, 0x21), (0x0204, 0xE9), (0x0205, 0x34), (0x0206, 0x00)]) of
     Inr s \<Rightarrow> m_Acc s = 0x87 \<and> \<not> HasStatusFlag s CARRY \<and> m_PC s = 0x0206
   | Inl e \<Rightarrow> False"
  by (simp add: Ticks_numeral cpu_eval Addr_IMP_def Addr_IMM_def
      Ins_SED_def Ins_CLC_def Ins_LDA_def Ins_SBC_def c_div_def)

section \<open>Branches\<close>

text \<open>
  C5.  The claim: a taken branch costs exactly one cycle more than an untaken
  one when the new PC is on the page of the PC after the operand fetch, and
  exactly two more when it is on another page.  The source compares the
  page byte of the new PC with the masked, unshifted old PC, which are equal
  only on page 0: a \<^verbatim>\<open>BNE\<close> taken from 0x0212 to 0x0217, on the same page,
  credits 4 cycles, two more than the 2 cycles of the untaken \<^verbatim>\<open>BEQ\<close> at the
  same place.
\<close>

theorem Branch_same_page_costs_two_extra:
  "(case Tick (boot [(0xFFFC, 0x10), (0xFFFD, 0x02), (0x0210, 0xD0), (0x0211, 0x05)]) of
      Inr (busy, s) \<Rightarrow> m_PC s = 0x0217 \<and> page (m_PC s) = page 0x0212 \<and> m_CyclesRem s = 4
    | Inl e \<Rightarrow> False)
   \<and> (case Tick (boot [(0xFFFC, 0x10), (0xFFFD, 0x02), (0x0210, 0xF0), (0x0211, 0x05)]) of
      Inr (busy, s) \<Rightarrow> m_PC s = 0x0212 \<and> m_CyclesRem s = 2
    | Inl e \<Rightarrow> False)"
  by (simp add: cpu_eval Addr_REL_def Ins_BNE_def Ins_BEQ_def Branch_def)

section \<open>Indexed indirect addressing\<close>

text \<open>
  C7.  The claim: for operand byte t, the low byte of the effective address
  is read from the zero-page cell (t+X) & 0xFF and the high byte from the
  cell (t+X+1) & 0xFF.  The source masks the second address with 0xFF00:
  with t = 0x10 and X = 4 the high byte comes from the cell 0x0000, not
  0x0015, so \<^verbatim>\<open>LDX #$04; LDA ($10,X)\<close> loads from 0xAB34 instead of 0x1234.
\<close>

theorem Addr_INX_high_byte_from_wrong_cell:
  "case Ticks 4 (boot [(0xFFFC, 0x00), (0xFFFD, 0x02),
       (0x0200, 0xA2), (0x0201, 0x04), (0x0202, 0xA1), (0x0203, 0x10),
       (0x0014, 0x34), (0x0015, 0x12), (0x0000, 0xAB), (0x1234, 0x77), (0xAB34, 0x99)]) of
     Inr s \<Rightarrow> m_Acc s = 0x99 \<and> m_X s = 0x04 \<and> m_PC s = 0x0204
   | Inl e \<Rightarrow> False"
  by (simp add: Ticks_numeral cpu_eval Addr_IMM_def Addr_INX_def Ins_LDX_def Ins_LDA_def)

section \<open>The assembler's branch specialisation\<close>

text \<open>
  C8.  The claim: for a branch mnemonic whose resolved operand lies within
  [-126, +129] of the branch instruction, the assembler forces Relative
  addressing and emits the displacement from the instruction to the target
  minus 2.  The source measures the distance from the constant 0x0200 to the
  instruction instead.  \<^verbatim>\<open>BNE $0210\<close> at 0x0200 is emitted with the operand
  0xFFFE, in two bytes, not 0x0E; \<^verbatim>\<open>BNE $0310\<close> at 0x0300 is not specialised
  and nothing is emitted for it.
\<close>

theorem branch_window_measured_from_0200:
  "parseInstruction_emit 1 Instruction_BNE 0x0200 AddressMode_ABS 0x0210 Program_Make
     = \<lparr>m_StartingPCOffset = 0x0200,
        m_SourceCode = [Line 1 0x0200 [] [] 0xD0 Instruction_BNE AddressMode_REL 0xFFFE],
        m_ByteCode = [0xD0, 0xFE, 0xFF]\<rparr>
   \<and> parseInstruction_emit 1 Instruction_BNE 0x0300 AddressMode_ABS 0x0310 Program_Make
     = Program_Make"
  by (simp add: parseInstruction_emit_def branching_optimization_def startingPCOffset_def
      Program_Make_def find_BNE_REL find_BNE_ABS GET_LOW_BYTE_def GET_HIGH_BYTE_def)

section \<open>The unused bit of the processor status\<close>

text \<open>
  C9.  In every CPU state reachable from a reset by any sequence of Tick, IRQ
  and NMI calls, bit U (bit 5) of the processor status P is 1.
\<close>

theorem U_flag_always_set:
  "reachable s \<Longrightarrow> HasStatusFlag s UNUSED \<and> bit (m_ProcStatus s) 5"
proof -
  assume "reachable s"
  then have "HasStatusFlag s UNUSED"
  proof (induction rule: reachable.induct)
    case (reach_Reset s)
    show ?case by (rule Reset_UNUSED)
  next
    case (reach_Tick s busy s')
    then show ?case by (blast intro: Tick_UNUSED)
  next
    case (reach_IRQ s)
    then show ?case by (simp add: IRQ_UNUSED)
  next
    case (reach_NMI s)
    show ?case by (rule NMI_UNUSED)
  qed
  then show ?thesis by (simp add: HasStatusFlag_bit)
qed

theorem U_flag_always_set_witness:
  "reachable (NMI (IRQ (Reset (CPU_Make None))))
   \<and> HasStatusFlag (NMI (IRQ (Reset (CPU_Make None)))) UNUSED
   \<and> bit (m_ProcStatus (NMI (IRQ (Reset (CPU_Make None))))) 5"
proof -
  have r: "reachable (NMI (IRQ (Reset (CPU_Make None))))"
    by (intro reach_NMI reach_IRQ reach_Reset)
  show ?thesis using r U_flag_always_set [OF r] by simp
qed

section \<open>Word reads at the top of the address space\<close>

text \<open>
  C10.  For a memory of the default size of 64 KiB, the word read at address
  0xFFFF takes its low byte from the cell 0xFFFF and its high byte from the
  cell 0x0000: the successor address wraps modulo 2^16 through the 16-bit
  address type, and the read is in range rather than answered with 0.
\<close>

theorem Memory_ReadWord_top_wraps:
  "m_Size mem = MAKE_KB 64 \<Longrightarrow>
   Memory_ReadWord mem 0xFFFF =
     word_of_int (MAKE_WORD (uint (m_Data mem ! 0xFFFF)) (uint (m_Data mem ! 0x0000)))
   \<and> Memory_ReadByte mem (address_of (uint (0xFFFF :: address) + 1)) = m_Data mem ! 0"
  by (simp add: Memory_ReadWord_def Memory_ReadByte_def address_of_def MAKE_KB_def KB_def)

theorem Memory_ReadWord_top_wraps_witness:
  "m_Size (Memory_with [(0xFFFF, 0x34), (0x0000, 0x12)]) = MAKE_KB 64
   \<and> Memory_ReadWord (Memory_with [(0xFFFF, 0x34), (0x0000, 0x12)]) 0xFFFF = 0x1234"
  using Memory_ReadWord_top_wraps [of "Memory_with [(0xFFFF, 0x34), (0x0000, 0x12)]"]
  by (simp add: Memory_with_def Memory_WriteByte_def Memory_Make_def MAKE_KB_def KB_def MAKE_WORD_def)

end
